theory Spec2Isabelle
  imports Complex_Main
begin

section \<open>Python values and exceptions\<close>

text \<open>
  The program is the Python 2 script \<^verbatim>\<open>isbg.py\<close> (its first line asks for
  \<^verbatim>\<open>python2\<close>) with its IMAP layer \<^verbatim>\<open>imap.py\<close>. A Python \<^verbatim>\<open>str\<close> is a byte
  string, modelled as \<^typ>\<open>string\<close>. Every exception that the code can raise is a value of
  \<open>exn\<close>, and a computation returns \<open>(exn + 'a) \<times> world\<close>: the exception or the result,
  together with the world as it is at that moment.
\<close>

datatype exn =
    ISBGImapError
  | ISBGError int string
  | SystemExit int
  | IMAP4_error
  | TypeError
  | NameError
  | AttributeError
  | IndexError
  | KeyError
  | ValueError
  | OSError
  | IOError
  | UnicodeDecodeError
  | UnwrapError

text \<open>
  The values \<^verbatim>\<open>json.load\<close> returns. Floating-point numbers are left out: the program
  writes only integers (the uidvalidity) and integers or strings (the uids). An object
  is the list of its members in the order of the text; a later member overrides an
  earlier one with the same key, as in \<^verbatim>\<open>json.load\<close>.
\<close>

datatype json =
    JNull
  | JBool bool
  | JInt int
  | JStr string
  | JArr "json list"
  | JObj "(string \<times> json) list"

text \<open>A file is its parsed JSON value, or \<open>NotJson\<close> when \<^verbatim>\<open>json.load\<close> raises on its text.\<close>

datatype fcontent = NotJson | Json json

subsection \<open>The IMAP connection and the external processes\<close>

text \<open>
  One element of the data list of an \<^verbatim>\<open>imaplib\<close> response: \<^verbatim>\<open>None\<close>, a byte string, or
  a pair of byte strings (a literal with its envelope).
\<close>

datatype item = INone | IBytes string | IPair string string

text \<open>What an \<^verbatim>\<open>imaplib\<close> call does: it raises, or it returns \<^verbatim>\<open>(typ, data)\<close>.\<close>

datatype reply = Raises | Reply string "item list"

text \<open>
  The \<^verbatim>\<open>imaplib\<close> calls the program makes. \<open>UidSearchSmaller n\<close> is
  \<^verbatim>\<open>uid("SEARCH", None, "SMALLER", str(n))\<close>; \<open>Append m b\<close> is \<^verbatim>\<open>append(m, None, None, b)\<close>.
\<close>

datatype imap_cmd =
    Select string bool
  | Status string string
  | UidSearchSmaller int
  | UidFetch string string
  | Append string string
  | UidCopy string string
  | UidStore string string string
  | Expunge

text \<open>
  What \<^verbatim>\<open>Popen\<close> followed by \<^verbatim>\<open>communicate\<close> does: \<^verbatim>\<open>Popen\<close> raises, \<^verbatim>\<open>communicate\<close>
  raises, or the process writes its output and exits with a return code.
\<close>

datatype proc = SpawnError | CommError | Exited string int

text \<open>An event is an IMAP call or a process started with its command line and input.\<close>

datatype event = Imap imap_cmd | Spawn "string list" string

text \<open>
  The world is the history of the events so far, oldest first, and the files.
\<close>

record world =
  trace :: "event list"
  files :: "string \<Rightarrow> fcontent option"

text \<open>
  The environment holds everything outside the two source files. The server and the
  processes answer as a function of the whole history, its last element being the call
  to answer. \<open>unwrap\<close> is \<^verbatim>\<open>isbg.sa_unwrap.unwrap\<close>, applied to the message body; \<open>py_float\<close>
  and \<open>py_int\<close> are the builtins \<^verbatim>\<open>float\<close> and \<^verbatim>\<open>int\<close> on strings, \<open>None\<close> when they raise
  \<^verbatim>\<open>ValueError\<close> (the value of a float is taken as a real number; \<^verbatim>\<open>nan\<close> and \<^verbatim>\<open>inf\<close> are
  outside the model); \<open>py_repr\<close> is \<^verbatim>\<open>repr\<close>; \<open>writable\<close> says whether \<^verbatim>\<open>open(path, "w+")\<close>
  succeeds.
\<close>

record env =
  imap_reply :: "event list \<Rightarrow> reply"
  proc_reply :: "event list \<Rightarrow> proc"
  unwrap :: "string \<Rightarrow> exn + string list option"
  py_float :: "string \<Rightarrow> real option"
  py_int :: "string \<Rightarrow> int option"
  py_repr :: "string \<Rightarrow> string"
  writable :: "string \<Rightarrow> bool"

definition thenE ::
  "('s \<Rightarrow> (exn + 'a) \<times> 's) \<Rightarrow> ('a \<Rightarrow> 's \<Rightarrow> (exn + 'b) \<times> 's) \<Rightarrow> 's \<Rightarrow> (exn + 'b) \<times> 's" where
  "thenE m f w = (case m w of (Inl e, w') \<Rightarrow> (Inl e, w') | (Inr a, w') \<Rightarrow> f a w')"

subsection \<open>String helpers\<close>

fun starts_with :: "string \<Rightarrow> string \<Rightarrow> bool" where
  "starts_with [] s = True"
| "starts_with (p # ps) [] = False"
| "starts_with (p # ps) (c # cs) = (p = c \<and> starts_with ps cs)"

text \<open>\<^verbatim>\<open>p in s\<close> for two strings.\<close>

fun py_contains :: "string \<Rightarrow> string \<Rightarrow> bool" where
  "py_contains p [] = (p = [])"
| "py_contains p (c # cs) = (starts_with p (c # cs) \<or> py_contains p cs)"

definition is_digit :: "char \<Rightarrow> bool" where
  "is_digit c = (48 \<le> (of_char c :: nat) \<and> (of_char c :: nat) \<le> 57)"

definition is_space :: "char \<Rightarrow> bool" where
  "is_space c = ((of_char c :: nat) = 32 \<or> (9 \<le> (of_char c :: nat) \<and> (of_char c :: nat) \<le> 13))"

definition is_ascii :: "string \<Rightarrow> bool" where
  "is_ascii s = (\<forall>c \<in> set s. (of_char c :: nat) < 128)"

text \<open>\<^verbatim>\<open>s.decode()\<close>: the default codec of Python 2 is ASCII.\<close>

definition decode :: "string \<Rightarrow> exn + string" where
  "decode s = (if is_ascii s then Inr s else Inl UnicodeDecodeError)"

text \<open>\<^verbatim>\<open>s.split()\<close>: the words between runs of whitespace.\<close>

fun split_acc :: "string \<Rightarrow> string \<Rightarrow> string list" where
  "split_acc cur [] = (if cur = [] then [] else [cur])"
| "split_acc cur (c # cs) =
     (if is_space c then (if cur = [] then split_acc [] cs else cur # split_acc [] cs)
      else split_acc (cur @ [c]) cs)"

definition py_split :: "string \<Rightarrow> string list" where
  "py_split s = split_acc [] s"

text \<open>\<^verbatim>\<open>int(s)\<close> on a string of decimal digits.\<close>

definition int_of_digits :: "string \<Rightarrow> int" where
  "int_of_digits s = foldl (\<lambda>n c. 10 * n + (int (of_char c) - 48)) 0 s"


section \<open>\<^verbatim>\<open>util.py\<close>\<close>

definition truncate :: "env \<Rightarrow> string \<Rightarrow> nat \<Rightarrow> string" where
  "truncate env inp n =
     (if length inp > n then take (n - 3) (py_repr env inp) @ ''...'' else inp)"

text \<open>
  \<^verbatim>\<open>shorten(res, length)\<close> on a response \<^verbatim>\<open>(typ, data)\<close>. It walks the tuple and the list
  \<open>data\<close> and calls \<^verbatim>\<open>truncate\<close> on every leaf; \<^verbatim>\<open>truncate(None, length)\<close> evaluates
  \<^verbatim>\<open>len(None)\<close> and raises \<^verbatim>\<open>TypeError\<close>. Of the result only element 0 is used by the
  caller (the rest is logged), so the model returns that element.
\<close>

definition shorten :: "env \<Rightarrow> string \<times> item list \<Rightarrow> nat \<Rightarrow> exn + string" where
  "shorten env res n =
     (if INone \<in> set (snd res) then Inl TypeError else Inr (truncate env (fst res) n))"

section \<open>\<^verbatim>\<open>imap.py\<close>: class \<^verbatim>\<open>ISBGImap\<close>\<close>

text \<open>A call of \<^verbatim>\<open>imaplib\<close>: the event is recorded and the server's answer is read.\<close>

definition imap_call :: "env \<Rightarrow> imap_cmd \<Rightarrow> world \<Rightarrow> (exn + string \<times> item list) \<times> world" where
  "imap_call env c w =
     (let w' = w\<lparr>trace := trace w @ [Imap c]\<rparr> in
      case imap_reply env (trace w') of
        Raises \<Rightarrow> (Inl IMAP4_error, w')
      | Reply typ dat \<Rightarrow> (Inr (typ, dat), w'))"

text \<open>
  The argument \<^verbatim>\<open>flags\<close> of \<^verbatim>\<open>store\<close> is a string at some call sites and a list of
  strings at others.
\<close>

datatype pyval = PStr string | PList "string list"

text \<open>
  \<^verbatim>\<open>_imapflags(self, flags)\<close>: a string is passed through. The other branch evaluates
  \<^verbatim>\<open>','.join(flaglist)\<close>, and no name \<^verbatim>\<open>flaglist\<close> is bound in the method or in the
  module \<^verbatim>\<open>imap.py\<close>: Python raises \<^verbatim>\<open>NameError\<close>.
\<close>

definition imapflags_method :: "pyval \<Rightarrow> exn + string" where
  "imapflags_method flags = (case flags of PStr s \<Rightarrow> Inr s | PList l \<Rightarrow> Inl NameError)"

text \<open>
  \<^verbatim>\<open>_assertok(self, res, *args)\<close>, with \<open>arg0\<close> for \<^verbatim>\<open>args[0]\<close>. When \<^verbatim>\<open>'fetch' in args[0]\<close> the
  response is replaced by its shortened form before \<^verbatim>\<open>res[0]\<close> is compared with \<^verbatim>\<open>"OK"\<close>.
\<close>

definition assertok :: "env \<Rightarrow> string \<times> item list \<Rightarrow> string \<Rightarrow> exn + unit" where
  "assertok env res arg0 =
     (if py_contains ''fetch'' arg0 then
        (case shorten env res 100 of
           Inl e \<Rightarrow> Inl e
         | Inr r0 \<Rightarrow> if r0 \<noteq> ''OK'' then Inl ISBGImapError else Inr ())
      else if fst res \<noteq> ''OK'' then Inl ISBGImapError else Inr ())"

definition checked :: "env \<Rightarrow> imap_cmd \<Rightarrow> string \<Rightarrow> world \<Rightarrow> (exn + string \<times> item list) \<times> world" where
  "checked env c arg0 =
     thenE (imap_call env c) (\<lambda>res w.
       case assertok env res arg0 of Inl e \<Rightarrow> (Inl e, w) | Inr u \<Rightarrow> (Inr res, w))"

text \<open>
  \<^verbatim>\<open>getmessage(self, uid)\<close>. \<^verbatim>\<open>body = res[1][0][1]\<close> succeeds on a pair, and on a byte
  string of two or more bytes (its second byte). Otherwise the handler runs
  \<^verbatim>\<open>self.exception(...)\<close>; the class has no attribute \<^verbatim>\<open>exception\<close>, so the handler raises
  \<^verbatim>\<open>AttributeError\<close> and the warning on the next line is not reached.
\<close>

definition getmessage :: "env \<Rightarrow> string \<Rightarrow> world \<Rightarrow> (exn + string) \<times> world" where
  "getmessage env uid =
     thenE (checked env (UidFetch uid ''(BODY.PEEK[])'') ''uid fetch'') (\<lambda>res w.
       case snd res of
         IPair h b # rest \<Rightarrow> (Inr b, w)
       | IBytes b # rest \<Rightarrow>
           (if length b \<ge> 2 then (Inr [b ! 1], w) else (Inl AttributeError, w))
       | _ \<Rightarrow> (Inl AttributeError, w))"

text \<open>\<^verbatim>\<open>re.search('UIDVALIDITY ([0-9]+)', body)\<close>: group 1 of the leftmost match.\<close>

fun re_uidvalidity :: "string \<Rightarrow> string option" where
  "re_uidvalidity [] = None"
| "re_uidvalidity (c # cs) =
     (if starts_with ''UIDVALIDITY '' (c # cs) \<and> takeWhile is_digit (drop 12 (c # cs)) \<noteq> []
      then Some (takeWhile is_digit (drop 12 (c # cs)))
      else re_uidvalidity cs)"

definition get_uidvalidity :: "env \<Rightarrow> string \<Rightarrow> world \<Rightarrow> (exn + int) \<times> world" where
  "get_uidvalidity env mailbox =
     thenE (checked env (Status mailbox ''(UIDVALIDITY)'') ''status (uidvalidity)'') (\<lambda>mbstatus w.
       case snd mbstatus of
         [] \<Rightarrow> (Inl IndexError, w)
       | IBytes b # rest \<Rightarrow>
           (case decode b of
              Inl e \<Rightarrow> (Inl e, w)
            | Inr body \<Rightarrow>
                (case re_uidvalidity body of
                   None \<Rightarrow> (Inr 0, w)
                 | Some g \<Rightarrow> (Inr (int_of_digits g), w)))
       | _ \<Rightarrow> (Inl AttributeError, w))"

definition imap_select :: "env \<Rightarrow> string \<Rightarrow> world \<Rightarrow> (exn + string \<times> item list) \<times> world" where
  "imap_select env mailbox = checked env (Select mailbox True) ''select''"

definition imap_append :: "env \<Rightarrow> string \<Rightarrow> string \<Rightarrow> world \<Rightarrow> (exn + unit) \<times> world" where
  "imap_append env mailbox message =
     thenE (checked env (Append mailbox message) ''append'') (\<lambda>res w. (Inr (), w))"

definition imap_copy :: "env \<Rightarrow> string \<Rightarrow> string \<Rightarrow> world \<Rightarrow> (exn + string \<times> item list) \<times> world" where
  "imap_copy env uid mailbox = checked env (UidCopy uid mailbox) ''uid copy''"

text \<open>
  \<^verbatim>\<open>store(self, uid, command, flags)\<close>: the arguments of \<^verbatim>\<open>self.imap.uid\<close> are evaluated
  first, so an exception of \<^verbatim>\<open>_imapflags\<close> comes before any command is sent.
\<close>

definition imap_store :: "env \<Rightarrow> string \<Rightarrow> string \<Rightarrow> pyval \<Rightarrow> world \<Rightarrow> (exn + string \<times> item list) \<times> world" where
  "imap_store env uid command flags w =
     (case imapflags_method flags of
        Inl e \<Rightarrow> (Inl e, w)
      | Inr fl \<Rightarrow> checked env (UidStore uid command fl) ''uid copy'' w)"

text \<open>
  A call \<^verbatim>\<open>self.imap.store(a1, ..., an)\<close>: the method takes three arguments besides
  \<^verbatim>\<open>self\<close>, and Python raises \<^verbatim>\<open>TypeError\<close> for any other number before the body runs.
\<close>

definition call_store :: "env \<Rightarrow> pyval list \<Rightarrow> world \<Rightarrow> (exn + string \<times> item list) \<times> world" where
  "call_store env args w =
     (case args of
        [PStr uid, PStr command, flags] \<Rightarrow> imap_store env uid command flags w
      | _ \<Rightarrow> (Inl TypeError, w))"

text \<open>\<^verbatim>\<open>search(None, "SMALLER", str(n))\<close>: the response is returned unchecked.\<close>

definition imap_search_smaller :: "env \<Rightarrow> int \<Rightarrow> world \<Rightarrow> (exn + string \<times> item list) \<times> world" where
  "imap_search_smaller env n = imap_call env (UidSearchSmaller n)"

definition imap_expunge :: "env \<Rightarrow> world \<Rightarrow> (exn + string \<times> item list) \<times> world" where
  "imap_expunge env = checked env Expunge ''expunge''"

section \<open>\<^verbatim>\<open>isbg.py\<close>: module functions\<close>

definition LF :: char where "LF = CHR 0x0A"
definition CR :: char where "CR = CHR 0x0D"
definition backslash :: char where "backslash = CHR 0x5C"

text \<open>\<^verbatim>\<open>errorexit(msg, exitcode)\<close> always raises: \<^verbatim>\<open>ISBGError\<close> for -1, else \<^verbatim>\<open>sys.exit\<close>.\<close>

definition errorexit :: "string \<Rightarrow> int \<Rightarrow> exn" where
  "errorexit msg exitcode = (if exitcode = - 1 then ISBGError exitcode msg else SystemExit exitcode)"

text \<open>
  One pass of \<^verbatim>\<open>re.sub(crnlre, "\\1\r\n", text)\<close> with \<^verbatim>\<open>crnlre = "([^\r])\n"\<close>: matches are
  found from the left and do not overlap.
\<close>

fun crnl_sub :: "string \<Rightarrow> string" where
  "crnl_sub (c # n # rest) =
     (if c \<noteq> CR \<and> n = LF then c # CR # LF # crnl_sub rest else c # crnl_sub (n # rest))"
| "crnl_sub s = s"

definition crnlify :: "string \<Rightarrow> string" where
  "crnlify text = crnl_sub (crnl_sub text)"

text \<open>
  \<^verbatim>\<open>re.search("score=(-?\d+(?:\.\d+)?) required=(\d+(?:\.\d+)?)", score)\<close>: the two groups of
  the leftmost match. \<open>match_number\<close> is \<^verbatim>\<open>\d+(?:\.\d+)?\<close> at the start of a string, with
  the rest of the string; the greedy match is the only one that a space or the end of
  the pattern can follow.
\<close>

definition match_number :: "string \<Rightarrow> (string \<times> string) option" where
  "match_number s =
     (let d = takeWhile is_digit s; r = dropWhile is_digit s in
      if d = [] then None
      else (case r of
              c # r' \<Rightarrow>
                if c = CHR ''.'' \<and> takeWhile is_digit r' \<noteq> []
                then Some (d @ [c] @ takeWhile is_digit r', dropWhile is_digit r')
                else Some (d, r)
            | [] \<Rightarrow> Some (d, r)))"

definition match_score_at :: "string \<Rightarrow> (string \<times> string) option" where
  "match_score_at s =
     (if starts_with ''score='' s then
        (let r = drop 6 s;
             sgn = (if starts_with ''-'' r then ''-'' else []);
             r1 = drop (length sgn) r in
         case match_number r1 of
           None \<Rightarrow> None
         | Some (n1, r2) \<Rightarrow>
             if starts_with '' required='' r2 then
               (case match_number (drop 10 r2) of
                  None \<Rightarrow> None
                | Some (n2, r3) \<Rightarrow> Some (sgn @ n1, n2))
             else None)
      else None)"

fun re_search_score :: "string \<Rightarrow> (string \<times> string) option" where
  "re_search_score [] = None"
| "re_search_score (c # cs) =
     (case match_score_at (c # cs) of Some g \<Rightarrow> Some g | None \<Rightarrow> re_search_score cs)"

section \<open>\<^verbatim>\<open>isbg.py\<close>: class \<^verbatim>\<open>ISBG\<close>\<close>

text \<open>
  The attributes of an \<^verbatim>\<open>ISBG\<close> object that the scan and the option handling of the
  learning flags read. \<^verbatim>\<open>partialrun\<close> is \<^verbatim>\<open>False\<close> (here \<open>None\<close>) or an integer;
  \<^verbatim>\<open>pastuidsfile\<close> is \<^verbatim>\<open>None\<close> or a string. The attributes of the connection, the lock
  file, the password file and the reporting are left out.
\<close>

record isbg =
  imapinbox :: string
  spaminbox :: string
  learnspambox :: "string option"
  learnhambox :: "string option"
  noreport :: bool
  dryrun :: bool
  maxsize :: int
  teachonly :: bool
  spamc :: bool
  gmail :: bool
  pastuidsfile :: "string option"
  partialrun :: "int option"
  movehamto :: "string option"
  delete :: bool
  deletehigherthan :: "real option"
  flag :: bool
  expunge :: bool
  learnflagged :: bool
  learnunflagged :: bool
  learnthendestroy :: bool
  learnthenflag :: bool
  satest :: "string list"
  sasave :: "string list"
  spamflagscmd :: string
  spamflags :: "string list"

definition exitcodeflags :: int where "exitcodeflags = 10"
definition exitcodespamc :: int where "exitcodespamc = 12"

text \<open>
  \<^verbatim>\<open>set_learning_opts\<close>: the only place where the two learning filters are checked
  against each other.
\<close>

definition set_learning_opts :: "isbg \<Rightarrow> bool \<Rightarrow> bool \<Rightarrow> bool \<Rightarrow> bool \<Rightarrow> exn + isbg" where
  "set_learning_opts self lf lu ltd ltf =
     (if lf \<and> lu then Inl ValueError
      else Inr (self\<lparr>learnflagged := lf, learnunflagged := lu,
                     learnthendestroy := ltd, learnthenflag := ltf\<rparr>))"

text \<open>The object as \<^verbatim>\<open>__init__\<close> leaves it.\<close>

definition init_isbg :: isbg where
  "init_isbg =
     \<lparr>imapinbox = ''INBOX'', spaminbox = ''INBOX.spam'', learnspambox = None,
      learnhambox = None, noreport = False, dryrun = False, maxsize = 120000,
      teachonly = False, spamc = False, gmail = False, pastuidsfile = None,
      partialrun = None, movehamto = None, delete = False, deletehigherthan = None,
      flag = False, expunge = False, learnflagged = False, learnunflagged = False,
      learnthendestroy = False, learnthenflag = False,
      satest = [''spamassassin'', ''--exit-code''], sasave = [''spamassassin''],
      spamflagscmd = ''+FLAGS.SILENT'', spamflags = []\<rparr>"

text \<open>
  The dictionary \<^verbatim>\<open>docopt\<close> returns, for the options that set the attributes above: a
  switch is \<^verbatim>\<open>True\<close> or \<^verbatim>\<open>False\<close>, an option with an argument is a string or \<^verbatim>\<open>None\<close>.
\<close>

record opts =
  o_deletehigherthan :: "string option"
  o_flag :: bool
  o_imapinbox :: "string option"
  o_learnspambox :: "string option"
  o_learnhambox :: "string option"
  o_dryrun :: bool
  o_delete :: bool
  o_gmail :: bool
  o_maxsize :: "string option"
  o_movehamto :: "string option"
  o_noreport :: bool
  o_spaminbox :: "string option"
  o_trackfile :: "string option"
  o_partialrun :: "string option"
  o_learnunflagged :: bool
  o_learnflagged :: bool
  o_learnthendestroy :: bool
  o_learnthenflag :: bool
  o_expunge :: bool
  o_teachonly :: bool
  o_spamc :: bool

text \<open>\<^verbatim>\<open>d.get(key, default)\<close> after the entries with value \<^verbatim>\<open>None\<close> were removed.\<close>

definition get_or :: "'a option \<Rightarrow> 'a \<Rightarrow> 'a" where
  "get_or v d = (case v of None \<Rightarrow> d | Some x \<Rightarrow> x)"

text \<open>
  \<^verbatim>\<open>parse_args\<close>, in the order of its statements. The learning flags are assigned from
  the options one by one; \<^verbatim>\<open>set_learning_opts\<close> is not called. Two messages of
  \<^verbatim>\<open>errorexit\<close> include the \<^verbatim>\<open>repr\<close> of a number in the source and are shortened here; the
  exit code is the one of the source.
\<close>

definition parse_deletehigherthan :: "env \<Rightarrow> opts \<Rightarrow> exn + real option" where
  "parse_deletehigherthan env os =
     (case o_deletehigherthan os of
        None \<Rightarrow> Inr None
      | Some s \<Rightarrow>
          (case py_float env s of
             None \<Rightarrow> Inl (errorexit (''Unrecognized score - '' @ s) exitcodeflags)
           | Some x \<Rightarrow>
               if x < 1 then Inl (errorexit ''Score is too small'' exitcodeflags)
               else Inr (Some x)))"

definition parse_maxsize :: "env \<Rightarrow> isbg \<Rightarrow> opts \<Rightarrow> exn + int" where
  "parse_maxsize env self os =
     (case o_maxsize os of
        None \<Rightarrow> Inr (maxsize self)
      | Some s \<Rightarrow>
          (case py_int env s of
             None \<Rightarrow> Inl (errorexit (''Unrecognised size - '' @ s) exitcodeflags)
           | Some n \<Rightarrow>
               if n < 1 then Inl (errorexit ''Size is too small'' exitcodeflags)
               else Inr n))"

definition parse_partialrun :: "env \<Rightarrow> isbg \<Rightarrow> opts \<Rightarrow> exn + int option" where
  "parse_partialrun env self os =
     (case o_partialrun os of
        None \<Rightarrow> Inr (partialrun self)
      | Some s \<Rightarrow>
          (case py_int env s of
             None \<Rightarrow> Inl ValueError
           | Some n \<Rightarrow>
               if n < 1
               then Inl (errorexit ''Partial run number must be equal to 1 or higher'' exitcodeflags)
               else Inr (Some n)))"

definition parse_args :: "env \<Rightarrow> isbg \<Rightarrow> opts \<Rightarrow> exn + isbg" where
  "parse_args env self os =
     (case parse_deletehigherthan env os of
        Inl e \<Rightarrow> Inl e
      | Inr dht \<Rightarrow>
     (case parse_maxsize env self os of
        Inl e \<Rightarrow> Inl e
      | Inr ms \<Rightarrow>
     (case parse_partialrun env self os of
        Inl e \<Rightarrow> Inl e
      | Inr pr \<Rightarrow>
          Inr (self\<lparr>deletehigherthan := dht,
                    spamflags := (if o_flag os then spamflags self @ [backslash # ''Flagged'']
                                  else spamflags self),
                    imapinbox := get_or (o_imapinbox os) (imapinbox self),
                    learnspambox := o_learnspambox os,
                    learnhambox := o_learnhambox os,
                    dryrun := o_dryrun os,
                    delete := o_delete os,
                    gmail := o_gmail os,
                    maxsize := ms,
                    movehamto := o_movehamto os,
                    noreport := o_noreport os,
                    spaminbox := get_or (o_spaminbox os) (spaminbox self),
                    pastuidsfile := (case o_trackfile os of None \<Rightarrow> pastuidsfile self
                                                          | Some f \<Rightarrow> Some f),
                    partialrun := pr,
                    learnunflagged := o_learnunflagged os,
                    learnflagged := o_learnflagged os,
                    learnthendestroy := o_learnthendestroy os,
                    learnthenflag := o_learnthenflag os,
                    expunge := o_expunge os,
                    teachonly := o_teachonly os,
                    spamc := o_spamc os\<rparr>))))"

text \<open>
  The search criterion of \<^verbatim>\<open>spamlearn\<close>: \<^verbatim>\<open>learnunflagged\<close> is tested first, so it wins
  when both flags are set.
\<close>

definition learn_criterion :: "isbg \<Rightarrow> string" where
  "learn_criterion self =
     (if learnunflagged self then ''UNFLAGGED''
      else if learnflagged self then ''(FLAGGED)''
      else ''ALL'')"

subsection \<open>The seen-uid file\<close>

text \<open>\<^verbatim>\<open>struct[key]\<close> for a string key: only a dictionary that has the key answers.\<close>

definition py_getitem :: "json \<Rightarrow> string \<Rightarrow> exn + json" where
  "py_getitem struct k =
     (case struct of
        JObj kvs \<Rightarrow> (case map_of (rev kvs) k of None \<Rightarrow> Inl KeyError | Some v \<Rightarrow> Inr v)
      | _ \<Rightarrow> Inl TypeError)"

text \<open>\<^verbatim>\<open>v == n\<close> for a JSON value and an integer; \<^verbatim>\<open>True == 1\<close> and \<^verbatim>\<open>False == 0\<close> hold in Python.\<close>

definition py_eq_int :: "json \<Rightarrow> int \<Rightarrow> bool" where
  "py_eq_int v n =
     (case v of JInt m \<Rightarrow> m = n | JBool b \<Rightarrow> (if b then 1 else 0) = n | _ \<Rightarrow> False)"

text \<open>
  \<^verbatim>\<open>pastuid_read(self, uidvalidity, folder)\<close>. Everything from \<^verbatim>\<open>open\<close> to the assignment
  is inside \<^verbatim>\<open>try\<close> with a bare \<^verbatim>\<open>except: pass\<close>, so every failure leaves \<^verbatim>\<open>pastuids = []\<close>:
  \<^verbatim>\<open>None + folder\<close>, a file that cannot be opened, text that is not JSON, a missing key.
  The result is whatever \<^verbatim>\<open>struct['uids']\<close> holds.
\<close>

definition pastuid_read :: "isbg \<Rightarrow> int \<Rightarrow> string \<Rightarrow> world \<Rightarrow> json" where
  "pastuid_read self uidvalidity folder w =
     (case pastuidsfile self of
        None \<Rightarrow> JArr []
      | Some p \<Rightarrow>
          (case files w (p @ folder) of
             None \<Rightarrow> JArr []
           | Some NotJson \<Rightarrow> JArr []
           | Some (Json struct) \<Rightarrow>
               (case py_getitem struct ''uidvalidity'' of
                  Inl e \<Rightarrow> JArr []
                | Inr v \<Rightarrow>
                    if py_eq_int v uidvalidity then
                      (case py_getitem struct ''uids'' of Inl e \<Rightarrow> JArr [] | Inr us \<Rightarrow> us)
                    else JArr [])))"

text \<open>The values that can be members of a Python set: lists and dictionaries cannot.\<close>

definition hashable :: "json \<Rightarrow> bool" where
  "hashable v = (case v of JArr xs \<Rightarrow> False | JObj kvs \<Rightarrow> False | _ \<Rightarrow> True)"

text \<open>\<^verbatim>\<open>a == b\<close> for two hashable values.\<close>

definition py_eq :: "json \<Rightarrow> json \<Rightarrow> bool" where
  "py_eq a b =
     (case a of
        JBool x \<Rightarrow> py_eq_int b (if x then 1 else 0)
      | JInt n \<Rightarrow> py_eq_int b n
      | _ \<Rightarrow> a = b)"

text \<open>
  \<^verbatim>\<open>list(set(xs))\<close>: of equal members the first one inserted is kept. Python does not
  fix the order of the list; the model lists the members in the order of their first
  occurrence, and the scan reads the list through membership tests only.
\<close>

fun py_list_set :: "json list \<Rightarrow> json list" where
  "py_list_set [] = []"
| "py_list_set (x # xs) = x # py_list_set (filter (\<lambda>y. \<not> py_eq x y) xs)"

text \<open>
  \<^verbatim>\<open>pastuid_write(self, uidvalidity, origpastuids, newpastuids, folder)\<close>. \<^verbatim>\<open>open(path, "w+")\<close>
  empties the file before anything else. \<^verbatim>\<open>len(origpastuids)\<close> raises for a value
  without length, \<^verbatim>\<open>newpastuids + origpastuids\<close> raises unless \<^verbatim>\<open>origpastuids\<close> is a list, and
  \<^verbatim>\<open>set(...)\<close> raises on an unhashable member.
\<close>

definition pastuid_write ::
  "env \<Rightarrow> isbg \<Rightarrow> int \<Rightarrow> json \<Rightarrow> json list \<Rightarrow> string \<Rightarrow> world \<Rightarrow> (exn + unit) \<times> world" where
  "pastuid_write env self uidvalidity origpastuids newpastuids folder w =
     (case pastuidsfile self of
        None \<Rightarrow> (Inl TypeError, w)
      | Some p \<Rightarrow>
          if \<not> writable env (p @ folder) then (Inl IOError, w)
          else
            (case origpastuids of
               JArr orig \<Rightarrow>
                 if list_all hashable (newpastuids @ orig) then
                   (Inr (),
                    w\<lparr>files := (files w)(p @ folder \<mapsto>
                         Json (JObj [(''uidvalidity'', JInt uidvalidity),
                                     (''uids'', JArr (py_list_set (newpastuids @ orig)))]))\<rparr>)
                 else (Inl TypeError, w\<lparr>files := (files w)(p @ folder \<mapsto> NotJson)\<rparr>)
             | _ \<Rightarrow> (Inl TypeError, w\<lparr>files := (files w)(p @ folder \<mapsto> NotJson)\<rparr>)))"

subsection \<open>\<^verbatim>\<open>spamassassin\<close>: before the loop\<close>

text \<open>\<^verbatim>\<open>u in origpastuids\<close> for a string \<open>u\<close>.\<close>

definition py_in :: "string \<Rightarrow> json \<Rightarrow> exn + bool" where
  "py_in u c =
     (case c of
        JArr xs \<Rightarrow> Inr (JStr u \<in> set xs)
      | JStr s \<Rightarrow> Inr (py_contains u s)
      | JObj kvs \<Rightarrow> Inr (u \<in> fst ` set kvs)
      | _ \<Rightarrow> Inl TypeError)"

text \<open>\<^verbatim>\<open>[u for u in inboxuids if u not in origpastuids]\<close>.\<close>

fun filter_unseen :: "string list \<Rightarrow> json \<Rightarrow> exn + string list" where
  "filter_unseen [] orig = Inr []"
| "filter_unseen (u # us) orig =
     (case py_in u orig of
        Inl e \<Rightarrow> Inl e
      | Inr b \<Rightarrow>
          (case filter_unseen us orig of
             Inl e \<Rightarrow> Inl e
           | Inr r \<Rightarrow> Inr (if b then r else u # r)))"

text \<open>\<^verbatim>\<open>uids[:n]\<close>: a negative \<open>n\<close> counts from the end.\<close>

definition py_slice_to :: "'a list \<Rightarrow> int \<Rightarrow> 'a list" where
  "py_slice_to xs n = (if n < 0 then take (nat (int (length xs) + n)) xs else take (nat n) xs)"

text \<open>\<^verbatim>\<open>if self.partialrun: uids = uids[:int(self.partialrun)]\<close>; 0 is false in Python.\<close>

definition apply_partialrun :: "isbg \<Rightarrow> string list \<Rightarrow> string list" where
  "apply_partialrun self uids =
     (case partialrun self of
        None \<Rightarrow> uids
      | Some n \<Rightarrow> if n \<noteq> 0 then py_slice_to uids n else uids)"

text \<open>\<^verbatim>\<open>inboxuids[0].split()\<close> and the \<^verbatim>\<open>decode\<close> of every word.\<close>

fun decode_all :: "string list \<Rightarrow> exn + string list" where
  "decode_all [] = Inr []"
| "decode_all (x # xs) =
     (case decode x of
        Inl e \<Rightarrow> Inl e
      | Inr y \<Rightarrow> (case decode_all xs of Inl e \<Rightarrow> Inl e | Inr ys \<Rightarrow> Inr (y # ys)))"

definition parse_inboxuids :: "item list \<Rightarrow> exn + string list" where
  "parse_inboxuids dat =
     (case dat of
        [] \<Rightarrow> Inl IndexError
      | IBytes b # rest \<Rightarrow> decode_all (py_split b)
      | _ \<Rightarrow> Inl AttributeError)"

text \<open>
  What the loop starts from: lines 438 to 464. The result is the uidvalidity, the uids
  of the search, the uids read from the file and the candidates.
\<close>

record scan_input =
  si_uidvalidity :: int
  si_inboxuids :: "string list"
  si_origpastuids :: json
  si_uids :: "string list"

definition scan_prepare :: "env \<Rightarrow> isbg \<Rightarrow> world \<Rightarrow> (exn + scan_input) \<times> world" where
  "scan_prepare env self =
     thenE (imap_select env (spaminbox self)) (\<lambda>r1.
     thenE (imap_select env (imapinbox self)) (\<lambda>r2.
     thenE (get_uidvalidity env (imapinbox self)) (\<lambda>uidvalidity.
     thenE (imap_search_smaller env (maxsize self)) (\<lambda>res w.
       case parse_inboxuids (snd res) of
         Inl e \<Rightarrow> (Inl e, w)
       | Inr inboxuids \<Rightarrow>
           (let origpastuids = pastuid_read self uidvalidity ''inbox'' w in
            case filter_unseen inboxuids origpastuids of
              Inl e \<Rightarrow> (Inl e, w)
            | Inr uids \<Rightarrow>
                (Inr \<lparr>si_uidvalidity = uidvalidity, si_inboxuids = inboxuids,
                      si_origpastuids = origpastuids,
                      si_uids = apply_partialrun self uids\<rparr>, w))))))"

subsection \<open>\<^verbatim>\<open>spamassassin\<close>: the loop over the candidates\<close>

record loop_state =
  newpastuids :: "string list"
  spamlist :: "string list"
  spamdeletelist :: "string list"
  processednum :: nat

definition init_state :: loop_state where
  "init_state = \<lparr>newpastuids = [], spamlist = [], spamdeletelist = [], processednum = 0\<rparr>"

definition processmax :: nat where "processmax = 5"
definition fakespammax :: nat where "fakespammax = 1"

text \<open>How an iteration ends: the loop goes on (also after \<^verbatim>\<open>continue\<close>) or \<^verbatim>\<open>break\<close>.\<close>

datatype ctl = Next | Break

text \<open>A process is started on an input: the event is recorded, the answer is read.\<close>

definition popen :: "env \<Rightarrow> string list \<Rightarrow> string \<Rightarrow> world \<Rightarrow> proc \<times> world" where
  "popen env cmd input w =
     (let w' = w\<lparr>trace := trace w @ [Spawn cmd input]\<rparr> in (proc_reply env (trace w'), w'))"

text \<open>
  The score text computed inside \<^verbatim>\<open>try\<close> from the output of the test process: the
  decoded output under \<^verbatim>\<open>spamc\<close>, else the two groups of the pattern joined by a slash
  and followed by a newline. \<open>None\<close> when a statement of the \<^verbatim>\<open>try\<close> block raises.
\<close>

definition score_text :: "isbg \<Rightarrow> string \<Rightarrow> string option" where
  "score_text self out =
     (case decode out of
        Inl e \<Rightarrow> None
      | Inr score \<Rightarrow>
          if spamc self then Some score
          else (case re_search_score score of
                  None \<Rightarrow> None
                | Some (g1, g2) \<Rightarrow> Some (g1 @ ''/'' @ g2 @ [LF])))"

text \<open>
  Lines 503 to 516: \<^verbatim>\<open>Popen\<close> is outside \<^verbatim>\<open>try\<close>, the rest inside; the handler logs and
  executes \<^verbatim>\<open>continue\<close> (here the result \<open>None\<close>).
\<close>

definition classify :: "env \<Rightarrow> isbg \<Rightarrow> string \<Rightarrow> world \<Rightarrow> (exn + (string \<times> int) option) \<times> world" where
  "classify env self body w =
     (case popen env (satest self) body w of
        (SpawnError, w') \<Rightarrow> (Inl OSError, w')
      | (CommError, w') \<Rightarrow> (Inr None, w')
      | (Exited out code, w') \<Rightarrow>
          (case score_text self out of
             None \<Rightarrow> (Inr None, w')
           | Some score \<Rightarrow> (Inr (Some (score, code)), w')))"

definition add_spam :: "string \<Rightarrow> loop_state \<Rightarrow> loop_state" where
  "add_spam u st = st\<lparr>spamlist := spamlist st @ [u]\<rparr>"

definition add_delete :: "string \<Rightarrow> loop_state \<Rightarrow> loop_state" where
  "add_delete u st = st\<lparr>spamdeletelist := spamdeletelist st @ [u]\<rparr>"

text \<open>
  Lines 536 to 567: the message goes to the spam folder, with the report (\<^verbatim>\<open>append\<close>)
  or without it (\<^verbatim>\<open>copy\<close>), and its uid is put on \<^verbatim>\<open>spamlist\<close>. A failure of
  \<^verbatim>\<open>communicate\<close> and an \<^verbatim>\<open>ISBGImapError\<close> of \<^verbatim>\<open>append\<close> end the iteration without that;
  other exceptions are not caught.
\<close>

definition report_spam ::
  "env \<Rightarrow> isbg \<Rightarrow> string \<Rightarrow> string \<Rightarrow> loop_state \<Rightarrow> world \<Rightarrow> (exn + loop_state) \<times> world" where
  "report_spam env self u body st w =
     (if \<not> noreport self then
        (if dryrun self then (Inr (add_spam u st), w)
         else
           (case popen env (sasave self) body w of
              (SpawnError, w') \<Rightarrow> (Inl OSError, w')
            | (CommError, w') \<Rightarrow> (Inr st, w')
            | (Exited out code, w') \<Rightarrow>
                (case imap_append env (spaminbox self) (crnlify out) w' of
                   (Inl ISBGImapError, w'') \<Rightarrow> (Inr st, w'')
                 | (Inl e, w'') \<Rightarrow> (Inl e, w'')
                 | (Inr r, w'') \<Rightarrow> (Inr (add_spam u st), w''))))
      else
        (if dryrun self then (Inr (add_spam u st), w)
         else
           (case imap_copy env u (spaminbox self) w of
              (Inl e, w') \<Rightarrow> (Inl e, w')
            | (Inr r, w') \<Rightarrow> (Inr (add_spam u st), w'))))"

text \<open>\<^verbatim>\<open>score.split('/')[0]\<close>.\<close>

definition numerator :: "string \<Rightarrow> string" where
  "numerator score = takeWhile (\<lambda>c. c \<noteq> CHR ''/'') score"

text \<open>
  Lines 527 to 567, the branch of a nonzero return code. The threshold test is
  \<^verbatim>\<open>float(score.split('/')[0]) > self.deletehigherthan\<close>; \<^verbatim>\<open>float\<close> is evaluated only when a
  threshold is set.
\<close>

definition handle_spam ::
  "env \<Rightarrow> isbg \<Rightarrow> string \<Rightarrow> string \<Rightarrow> string \<Rightarrow> loop_state \<Rightarrow> world \<Rightarrow> (exn + loop_state) \<times> world" where
  "handle_spam env self u body score st w =
     (case deletehigherthan self of
        None \<Rightarrow> report_spam env self u body st w
      | Some t \<Rightarrow>
          (case py_float env (numerator score) of
             None \<Rightarrow> (Inl ValueError, w)
           | Some x \<Rightarrow>
               if x > t then (Inr (add_delete u st), w)
               else report_spam env self u body st w))"

text \<open>Lines 517 to 567: what follows once \<^verbatim>\<open>score\<close> and \<^verbatim>\<open>code\<close> are set.\<close>

definition after_score ::
  "env \<Rightarrow> isbg \<Rightarrow> string \<Rightarrow> string \<Rightarrow> string \<Rightarrow> int \<Rightarrow> loop_state \<Rightarrow> world \<Rightarrow> (exn + loop_state) \<times> world" where
  "after_score env self u body score code st w =
     (if score = ''0/0'' @ [LF]
      then (Inl (errorexit ''spamc -> spamd error - aborting'' exitcodespamc), w)
      else if code = 0 then (Inr st, w)
      else handle_spam env self u body score st w)"

text \<open>The body that is classified: the first part \<^verbatim>\<open>unwrap\<close> finds, else the message.\<close>

definition unwrapped_body :: "string list option \<Rightarrow> string \<Rightarrow> string" where
  "unwrapped_body unwrapped body = (case unwrapped of Some (x # xs) \<Rightarrow> x | _ \<Rightarrow> body)"

text \<open>One iteration of the loop, lines 480 to 567.\<close>

definition scan_body ::
  "env \<Rightarrow> isbg \<Rightarrow> string \<Rightarrow> loop_state \<Rightarrow> world \<Rightarrow> (exn + ctl \<times> loop_state) \<times> world" where
  "scan_body env self u st w0 =
     (case getmessage env u w0 of
        (Inl e, w) \<Rightarrow> (Inl e, w)
      | (Inr body0, w) \<Rightarrow>
          (let st1 = st\<lparr>newpastuids := newpastuids st @ [u]\<rparr> in
           case unwrap env body0 of
             Inl e \<Rightarrow> (Inl e, w)
           | Inr unwrapped \<Rightarrow>
               (let body = unwrapped_body unwrapped body0 in
                if dryrun self then
                  (if processednum st1 > processmax then (Inr (Break, st1), w)
                   else
                     (let fake = processednum st1 < fakespammax;
                          st2 = st1\<lparr>processednum := processednum st1 + 1\<rparr> in
                      case after_score env self u body
                             (if fake then ''10/10'' else ''0/10'') (if fake then 1 else 0) st2 w of
                        (Inl e, w') \<Rightarrow> (Inl e, w')
                      | (Inr st3, w') \<Rightarrow> (Inr (Next, st3), w')))
                else
                  (case classify env self body w of
                     (Inl e, w') \<Rightarrow> (Inl e, w')
                   | (Inr None, w') \<Rightarrow> (Inr (Next, st1), w')
                   | (Inr (Some (score, code)), w') \<Rightarrow>
                       (case after_score env self u body score code st1 w' of
                          (Inl e, w'') \<Rightarrow> (Inl e, w'')
                        | (Inr st3, w'') \<Rightarrow> (Inr (Next, st3), w''))))))"

fun scan :: "env \<Rightarrow> isbg \<Rightarrow> string list \<Rightarrow> loop_state \<Rightarrow> world \<Rightarrow> (exn + loop_state) \<times> world" where
  "scan env self [] st w = (Inr st, w)"
| "scan env self (u # us) st w =
     (case scan_body env self u st w of
        (Inl e, w') \<Rightarrow> (Inl e, w')
      | (Inr (Break, st'), w') \<Rightarrow> (Inr st', w')
      | (Inr (Next, st'), w') \<Rightarrow> scan env self us st' w')"

subsection \<open>\<^verbatim>\<open>spamassassin\<close>: after the loop\<close>

text \<open>Lines 583 to 585: the flags are set on every uid of \<^verbatim>\<open>spamlist\<close>.\<close>

fun flag_spam :: "env \<Rightarrow> isbg \<Rightarrow> string list \<Rightarrow> loop_state \<Rightarrow> world \<Rightarrow> (exn + loop_state) \<times> world" where
  "flag_spam env self [] st w = (Inr st, w)"
| "flag_spam env self (u # us) st w =
     (case call_store env [PStr u, PStr (spamflagscmd self), PList (spamflags self)] w of
        (Inl e, w') \<Rightarrow> (Inl e, w')
      | (Inr r, w') \<Rightarrow> flag_spam env self us (st\<lparr>newpastuids := newpastuids st @ [u]\<rparr>) w')"

text \<open>Lines 588 and 589: every uid of \<^verbatim>\<open>spamlist\<close> is copied to the trash folder.\<close>

fun trash_spam :: "env \<Rightarrow> string list \<Rightarrow> world \<Rightarrow> (exn + unit) \<times> world" where
  "trash_spam env [] w = (Inr (), w)"
| "trash_spam env (u # us) w =
     (case imap_copy env u ''[Gmail]/Trash'' w of
        (Inl e, w') \<Rightarrow> (Inl e, w')
      | (Inr r, w') \<Rightarrow> trash_spam env us w')"

text \<open>
  Lines 591 to 595: the uids of \<^verbatim>\<open>spamdeletelist\<close>. Outside gmail mode the call is
  \<^verbatim>\<open>self.imap.store("STORE", u, self.spamflagscmd, "(\\Deleted)")\<close>, with four arguments.
\<close>

fun delete_spam :: "env \<Rightarrow> isbg \<Rightarrow> string list \<Rightarrow> world \<Rightarrow> (exn + unit) \<times> world" where
  "delete_spam env self [] w = (Inr (), w)"
| "delete_spam env self (u # us) w =
     (case (if gmail self then imap_copy env u ''[Gmail]/Trash'' w
            else call_store env [PStr ''STORE'', PStr u, PStr (spamflagscmd self),
                                 PStr (''('' @ [backslash] @ ''Deleted)'')] w) of
        (Inl e, w') \<Rightarrow> (Inl e, w')
      | (Inr r, w') \<Rightarrow> delete_spam env self us w')"

text \<open>Lines 576 to 597.\<close>

definition mark_originals :: "env \<Rightarrow> isbg \<Rightarrow> loop_state \<Rightarrow> world \<Rightarrow> (exn + loop_state) \<times> world" where
  "mark_originals env self st w =
     (if length (spamlist st) + length (spamdeletelist st) \<noteq> 0 \<or> length (spamdeletelist st) \<noteq> 0
      then
        (if dryrun self then (Inr st, w)
         else
           thenE (imap_select env (imapinbox self)) (\<lambda>res.
           thenE (if length (spamflags self) > 0 then flag_spam env self (spamlist st) st
                  else (\<lambda>w. (Inr st, w))) (\<lambda>st'.
           thenE (if delete self \<and> gmail self then trash_spam env (spamlist st)
                  else (\<lambda>w. (Inr (), w))) (\<lambda>u1.
           thenE (delete_spam env self (spamdeletelist st)) (\<lambda>u2.
           thenE (if expunge self then thenE (imap_expunge env) (\<lambda>r w. (Inr (), w))
                  else (\<lambda>w. (Inr (), w))) (\<lambda>u3 w.
             (Inr st', w)))))) w)
      else (Inr st, w))"

text \<open>
  \<^verbatim>\<open>spamassassin(self)\<close>. The result is \<^verbatim>\<open>(numspam, nummsg, spamdeleted)\<close>; the three
  numbers are computed before the originals are marked.
\<close>

definition spamassassin :: "env \<Rightarrow> isbg \<Rightarrow> world \<Rightarrow> (exn + nat \<times> nat \<times> nat) \<times> world" where
  "spamassassin env self =
     thenE (scan_prepare env self) (\<lambda>si.
     thenE (scan env self (si_uids si) init_state) (\<lambda>st.
     thenE (pastuid_write env self (si_uidvalidity si) (si_origpastuids si)
              (map JStr (newpastuids st)) ''inbox'') (\<lambda>u.
     thenE (mark_originals env self st) (\<lambda>st' w.
       (Inr (length (spamlist st) + length (spamdeletelist st),
             length (si_uids si),
             length (spamdeletelist st)), w)))))"

section \<open>Uids, and an example environment\<close>

text \<open>A uid in the seen-uid file is an integer or a string.\<close>

definition is_uid :: "json \<Rightarrow> bool" where
  "is_uid v = (case v of JInt n \<Rightarrow> True | JStr s \<Rightarrow> True | _ \<Rightarrow> False)"

text \<open>
  An environment to run the program in: the server answers \<^verbatim>\<open>OK\<close> to every command,
  the search returns \<open>inbox\<close>, the folder has uidvalidity 7, a fetch of \<open>u\<close> is answered by
  \<open>fetch u\<close> and a process by \<open>run\<close>; \<^verbatim>\<open>float\<close> and \<^verbatim>\<open>int\<close> read strings of digits.
\<close>

definition demo_float :: "string \<Rightarrow> real option" where
  "demo_float s =
     (if s \<noteq> [] \<and> list_all is_digit s then Some (real_of_int (int_of_digits s)) else None)"

definition demo_int :: "string \<Rightarrow> int option" where
  "demo_int s = (if s \<noteq> [] \<and> list_all is_digit s then Some (int_of_digits s) else None)"

definition demo_env :: "string \<Rightarrow> (string \<Rightarrow> reply) \<Rightarrow> (string list \<Rightarrow> string \<Rightarrow> proc) \<Rightarrow> env" where
  "demo_env inbox fetch run =
     \<lparr>imap_reply = (\<lambda>t. case last t of
          Imap (UidSearchSmaller n) \<Rightarrow> Reply ''OK'' [IBytes inbox]
        | Imap (Status m a) \<Rightarrow> Reply ''OK'' [IBytes ''INBOX (UIDVALIDITY 7)'']
        | Imap (UidFetch u a) \<Rightarrow> fetch u
        | _ \<Rightarrow> Reply ''OK'' [IBytes []]),
      proc_reply = (\<lambda>t. case last t of Spawn cmd body \<Rightarrow> run cmd body | _ \<Rightarrow> SpawnError),
      unwrap = (\<lambda>b. Inr None),
      py_float = demo_float,
      py_int = demo_int,
      py_repr = (\<lambda>s. s),
      writable = (\<lambda>p. True)\<rparr>"

definition fetch_ok :: "string \<Rightarrow> reply" where
  "fetch_ok u = Reply ''OK'' [IPair (''1 (UID '' @ u @ '' BODY[] {4}'') (''mail'' @ u), IBytes '')'']"

definition no_proc :: "string list \<Rightarrow> string \<Rightarrow> proc" where
  "no_proc cmd body = SpawnError"

definition track_isbg :: isbg where
  "track_isbg = init_isbg\<lparr>pastuidsfile := Some ''track''\<rparr>"

definition empty_world :: world where
  "empty_world = \<lparr>trace = [], files = Map.empty\<rparr>"

text \<open>The options of \<^verbatim>\<open>isbg.py --learnspambox Spam --learnflagged --learnunflagged\<close>.\<close>

definition both_learn_opts :: opts where
  "both_learn_opts =
     \<lparr>o_deletehigherthan = None, o_flag = False, o_imapinbox = None, o_learnspambox = Some ''Spam'',
      o_learnhambox = None, o_dryrun = False, o_delete = False, o_gmail = False,
      o_maxsize = None, o_movehamto = None, o_noreport = False, o_spaminbox = None,
      o_trackfile = None, o_partialrun = None, o_learnunflagged = True, o_learnflagged = True,
      o_learnthendestroy = False, o_learnthenflag = False, o_expunge = False,
      o_teachonly = False, o_spamc = False\<rparr>"

text \<open>
  The test process of the scenarios: it finds no spam in \<^verbatim>\<open>mail101\<close>, spam of score 5 in
  \<^verbatim>\<open>mail102\<close> and of score 12 in \<^verbatim>\<open>mail103\<close>, all with 10 required, and answers \<^verbatim>\<open>mail104\<close>
  with score 0 of 0 required and return code 1. Any other command line is the report
  process, which puts a header line before the message.
\<close>

definition scenario_run :: "string list \<Rightarrow> string \<Rightarrow> proc" where
  "scenario_run cmd body =
     (if cmd = [''spamassassin'', ''--exit-code''] then
        (if body = ''mail101'' then Exited ''X-Spam-Status: No, score=0 required=10'' 0
         else if body = ''mail102'' then Exited ''X-Spam-Status: Yes, score=5 required=10'' 1
         else if body = ''mail103'' then Exited ''X-Spam-Status: Yes, score=12 required=10'' 1
         else if body = ''mail104'' then Exited ''X-Spam-Status: No, score=0 required=0'' 1
         else Exited ''X-Spam-Status: No, score=1 required=10'' 0)
      else Exited (''X-Spam-Flag: YES'' @ [LF] @ body) 0)"

definition scenario_env :: env where
  "scenario_env = demo_env ''101 102 103'' fetch_ok scenario_run"

definition scenario_isbg :: isbg where
  "scenario_isbg = track_isbg\<lparr>deletehigherthan := Some 10\<rparr>"

definition degenerate_env :: env where
  "degenerate_env = demo_env ''101 104 102'' fetch_ok scenario_run"

text \<open>The uids of the fetch commands of a history, in order.\<close>

fun fetched :: "event list \<Rightarrow> string list" where
  "fetched [] = []"
| "fetched (Imap (UidFetch u a) # t) = u # fetched t"
| "fetched (e # t) = fetched t"

text \<open>
  More example objects: mailboxes of two, three and nine messages, a run limited to one
  message, a dry run limited to eight, the flag set of \<^verbatim>\<open>--flag\<close>, and servers whose
  answer to the fetch of uid 105 is \<^verbatim>\<open>('OK', [None])\<close> or \<^verbatim>\<open>('OK', [])\<close>.
\<close>

definition two_env :: env where
  "two_env = demo_env ''101 102'' fetch_ok scenario_run"

definition partial_isbg :: isbg where
  "partial_isbg = track_isbg\<lparr>partialrun := Some 1\<rparr>"

definition nine_env :: env where
  "nine_env = demo_env ''21 22 23 24 25 26 27 28 29'' fetch_ok scenario_run"

definition dry_isbg :: isbg where
  "dry_isbg = track_isbg\<lparr>dryrun := True, partialrun := Some 8\<rparr>"

definition three_env :: env where
  "three_env = demo_env ''1 2 3'' fetch_ok scenario_run"


definition gone_fetch :: "string \<Rightarrow> reply" where
  "gone_fetch u = (if u = ''105'' then Reply ''OK'' [INone] else fetch_ok u)"

definition gone_env :: env where
  "gone_env = demo_env ''101 105 102'' gone_fetch scenario_run"

definition nodata_fetch :: "string \<Rightarrow> reply" where
  "nodata_fetch u = (if u = ''105'' then Reply ''OK'' [] else fetch_ok u)"

definition nodata_env :: env where
  "nodata_env = demo_env ''101 105 102'' nodata_fetch scenario_run"

definition flag_isbg :: isbg where
  "flag_isbg = scenario_isbg\<lparr>spamflags := [backslash # ''Flagged'']\<rparr>"



section \<open>Properties of the seen-uid file\<close>

lemma py_eq_uid: "is_uid x \<Longrightarrow> is_uid y \<Longrightarrow> py_eq x y = (x = y)"
  by (auto simp: is_uid_def py_eq_def py_eq_int_def split: json.splits)

lemma py_eq_JStr: "py_eq x (JStr s) = (x = JStr s)"
  by (auto simp: py_eq_def py_eq_int_def split: json.splits)

lemma set_py_list_set_uid: "list_all is_uid xs \<Longrightarrow> set (py_list_set xs) = set xs"
proof (induction xs rule: py_list_set.induct)
  case 1
  then show ?case by simp
next
  case (2 x xs)
  have all: "list_all is_uid (filter (\<lambda>y. \<not> py_eq x y) xs)"
    using "2.prems" by (simp add: list_all_iff)
  have "set (py_list_set (filter (\<lambda>y. \<not> py_eq x y) xs)) = {y \<in> set xs. \<not> py_eq x y}"
    using "2.IH"[OF all] by simp
  moreover have "{y \<in> set xs. \<not> py_eq x y} = {y \<in> set xs. y \<noteq> x}"
    using "2.prems" by (auto simp: list_all_iff py_eq_uid)
  ultimately show ?case by auto
qed

lemma JStr_in_py_list_set: "JStr s \<in> set (py_list_set xs) \<longleftrightarrow> JStr s \<in> set xs"
proof (induction xs rule: py_list_set.induct)
  case 1
  then show ?case by simp
next
  case (2 x xs)
  then show ?case by (auto simp: py_eq_JStr)
qed

lemma hashable_uid: "is_uid x \<Longrightarrow> hashable x"
  by (auto simp: is_uid_def hashable_def split: json.splits)

lemma filter_unseen_empty: "filter_unseen us (JArr []) = Inr us"
  by (induction us) (simp_all add: py_in_def)

text \<open>
  Claim C2. For every folder name and all lists \<open>orig\<close> and \<open>new\<close> of uids, when the
  file can be opened for writing, \<^verbatim>\<open>pastuid_write(uidvalidity, orig, new, folder)\<close>
  returns, and \<^verbatim>\<open>pastuid_read(uidvalidity, folder)\<close> on the files it leaves returns a list
  whose set of elements is the union of the sets of \<open>orig\<close> and \<open>new\<close>.
\<close>

theorem pastuid_roundtrip:
  assumes "list_all is_uid orig" and "list_all is_uid new"
    and "pastuidsfile self = Some p" and "writable env (p @ folder)"
  shows "\<exists>w' r. pastuid_write env self uidvalidity (JArr orig) new folder w = (Inr (), w')
           \<and> pastuid_read self uidvalidity folder w' = JArr r
           \<and> set r = set orig \<union> set new"
proof -
  have h: "list_all hashable (new @ orig)"
    using assms(1,2) by (auto simp: list_all_iff hashable_uid)
  have u: "list_all is_uid (new @ orig)"
    using assms(1,2) by simp
  show ?thesis
    using assms(3,4) h set_py_list_set_uid[OF u]
    by (auto simp: pastuid_write_def pastuid_read_def py_getitem_def py_eq_int_def)
qed

theorem pastuid_roundtrip_witness:
  "\<exists>w' r. pastuid_write (demo_env [] fetch_ok no_proc) track_isbg 7 (JArr [JStr ''1'', JInt 4])
              [JStr ''2'', JStr ''1''] ''inbox'' empty_world = (Inr (), w')
         \<and> pastuid_read track_isbg 7 ''inbox'' w' = JArr r
         \<and> set r = set [JStr ''1'', JInt 4] \<union> set [JStr ''2'', JStr ''1'']"
  by (rule pastuid_roundtrip[where p = "''track''"])
     (simp_all add: is_uid_def track_isbg_def init_isbg_def demo_env_def)

text \<open>
  Claim C3. When the file of the folder is missing, or is not JSON, or records a
  uidvalidity that differs from the one passed, \<^verbatim>\<open>pastuid_read\<close> returns the empty list
  (it has no exceptional result at all), and the seen-filter then keeps every uid of
  the search as a candidate.
\<close>

theorem pastuid_read_invalid:
  assumes "pastuidsfile self = Some p"
    and "files w (p @ folder) = None \<or> files w (p @ folder) = Some NotJson
         \<or> (\<exists>struct v. files w (p @ folder) = Some (Json struct)
               \<and> py_getitem struct ''uidvalidity'' = Inr v \<and> \<not> py_eq_int v uidvalidity)"
  shows "pastuid_read self uidvalidity folder w = JArr []
         \<and> filter_unseen inboxuids (pastuid_read self uidvalidity folder w) = Inr inboxuids"
proof -
  have "pastuid_read self uidvalidity folder w = JArr []"
    using assms by (auto simp: pastuid_read_def)
  then show ?thesis by (simp add: filter_unseen_empty)
qed

theorem pastuid_read_invalid_witness:
  "pastuid_read track_isbg 8 ''inbox''
     \<lparr>trace = [], files = [''trackinbox'' \<mapsto> Json (JObj [(''uidvalidity'', JInt 7), (''uids'', JArr [JStr ''1''])])]\<rparr>
     = JArr []
   \<and> filter_unseen [''1'', ''2'']
        (pastuid_read track_isbg 8 ''inbox''
          \<lparr>trace = [], files = [''trackinbox'' \<mapsto> Json (JObj [(''uidvalidity'', JInt 7), (''uids'', JArr [JStr ''1''])])]\<rparr>)
     = Inr [''1'', ''2'']"
  by (rule pastuid_read_invalid[where p = "''track''"])
     (simp_all add: track_isbg_def init_isbg_def py_getitem_def py_eq_int_def)

section \<open>The learning filters\<close>

lemma set_learning_opts_rejects_both: "set_learning_opts self True True ltd ltf = Inl ValueError"
  by (simp add: set_learning_opts_def)

text \<open>
  Claim C9. The claim is that a configuration with both \<^verbatim>\<open>learnflagged\<close> and
  \<^verbatim>\<open>learnunflagged\<close> is rejected at setup. \<^verbatim>\<open>set_learning_opts\<close> rejects it, but
  \<^verbatim>\<open>parse_args\<close>, on the command line with both switches, returns an object that has both
  attributes set; \<^verbatim>\<open>spamlearn\<close> would then search \<^verbatim>\<open>UNFLAGGED\<close>.
\<close>

theorem parse_args_accepts_both_learning_filters:
  "\<exists>self. parse_args env init_isbg both_learn_opts = Inr self
      \<and> learnflagged self \<and> learnunflagged self \<and> learn_criterion self = ''UNFLAGGED''"
  by (simp add: parse_args_def parse_deletehigherthan_def parse_maxsize_def parse_partialrun_def
        both_learn_opts_def learn_criterion_def)

section \<open>The loop over the candidates\<close>

lemma imap_call_files: "imap_call env c w = (r, w') \<Longrightarrow> files w' = files w"
  by (auto simp: imap_call_def Let_def split: reply.splits)

lemma checked_files: "checked env c a w = (r, w') \<Longrightarrow> files w' = files w"
  by (auto simp: checked_def thenE_def split: prod.splits sum.splits dest!: imap_call_files)

lemma getmessage_files: "getmessage env u w = (r, w') \<Longrightarrow> files w' = files w"
  by (auto simp: getmessage_def thenE_def split: prod.splits sum.splits list.splits item.splits if_splits
      dest!: checked_files)

lemma popen_files: "popen env cmd inp w = (r, w') \<Longrightarrow> files w' = files w"
  by (auto simp: popen_def Let_def)

lemma classify_files: "classify env self body w = (r, w') \<Longrightarrow> files w' = files w"
  by (auto simp: classify_def split: prod.splits proc.splits option.splits dest!: popen_files)

lemma imap_append_files: "imap_append env m b w = (r, w') \<Longrightarrow> files w' = files w"
  by (auto simp: imap_append_def thenE_def split: prod.splits sum.splits dest!: checked_files)

lemma imap_copy_files: "imap_copy env u m w = (r, w') \<Longrightarrow> files w' = files w"
  by (auto simp: imap_copy_def dest!: checked_files)

lemma report_spam_files: "report_spam env self u body st w = (r, w') \<Longrightarrow> files w' = files w"
  by (auto simp: report_spam_def split: if_splits prod.splits proc.splits sum.splits exn.splits
      dest!: popen_files imap_append_files imap_copy_files)

lemma report_spam_newpastuids:
  "report_spam env self u body st w = (Inr st', w') \<Longrightarrow> newpastuids st' = newpastuids st"
  by (auto simp: report_spam_def add_spam_def split: if_splits prod.splits proc.splits sum.splits exn.splits)

lemma after_score_files: "after_score env self u body score code st w = (r, w') \<Longrightarrow> files w' = files w"
  by (auto simp: after_score_def handle_spam_def split: if_splits option.splits dest!: report_spam_files)

lemma after_score_newpastuids:
  "after_score env self u body score code st w = (Inr st', w') \<Longrightarrow> newpastuids st' = newpastuids st"
  by (auto simp: after_score_def handle_spam_def add_delete_def split: if_splits option.splits
      dest!: report_spam_newpastuids)

lemma scan_body_files: "scan_body env self u st w = (r, w') \<Longrightarrow> files w' = files w"
  unfolding scan_body_def Let_def
  by (auto split: if_splits prod.splits sum.splits option.splits
      dest!: getmessage_files classify_files after_score_files)

lemma scan_body_no_break:
  "\<not> dryrun self \<Longrightarrow> scan_body env self u st w \<noteq> (Inr (Break, st'), w')"
  by (auto simp: scan_body_def Let_def split: if_splits prod.splits sum.splits option.splits)

lemma scan_body_newpastuids:
  "scan_body env self u st w = (Inr (c, st'), w') \<Longrightarrow> newpastuids st' = newpastuids st @ [u]"
  by (auto simp: scan_body_def Let_def split: if_splits prod.splits sum.splits option.splits
      dest!: after_score_newpastuids)

lemma scan_files: "scan env self us st w = (r, w') \<Longrightarrow> files w' = files w"
proof (induction us arbitrary: st w)
  case Nil
  then show ?case by auto
next
  case (Cons u us)
  then show ?case
    by (auto split: prod.splits sum.splits ctl.splits dest!: scan_body_files) 
qed

lemma scan_newpastuids:
  "\<not> dryrun self \<Longrightarrow> scan env self us st w = (Inr st', w') \<Longrightarrow> newpastuids st' = newpastuids st @ us"
proof (induction us arbitrary: st w)
  case Nil
  then show ?case by auto
next
  case (Cons u us)
  obtain r w1 where b: "scan_body env self u st w = (r, w1)" by (cases "scan_body env self u st w")
  with Cons.prems obtain st1 where r: "r = Inr (Next, st1)" and s: "scan env self us st1 w1 = (Inr st', w')"
    using scan_body_no_break[of self env u st w]
    by (auto split: sum.splits ctl.splits prod.splits)
  from b r have "newpastuids st1 = newpastuids st @ [u]" by (auto dest!: scan_body_newpastuids)
  with Cons.IH[OF Cons.prems(1) s] show ?case by simp
qed

lemma scan_append:
  "\<not> dryrun self \<Longrightarrow>
   scan env self (xs @ ys) st w =
     (case scan env self xs st w of (Inl e, w') \<Rightarrow> (Inl e, w') | (Inr st', w') \<Rightarrow> scan env self ys st' w')"
proof (induction xs arbitrary: st w)
  case Nil
  then show ?case by simp
next
  case (Cons u xs)
  show ?case
    using Cons.IH[OF Cons.prems] scan_body_no_break[OF Cons.prems, of env u st w]
    by (auto split: prod.splits sum.splits ctl.splits)
qed


lemma checked_trace: "checked env c a w = (r, w') \<Longrightarrow> trace w' = trace w @ [Imap c]"
  by (auto simp: checked_def thenE_def imap_call_def Let_def split: prod.splits sum.splits reply.splits)

lemma getmessage_trace:
  "getmessage env u w = (r, w') \<Longrightarrow> trace w' = trace w @ [Imap (UidFetch u ''(BODY.PEEK[])'')]"
  by (auto simp: getmessage_def thenE_def split: prod.splits sum.splits list.splits item.splits if_splits
      dest!: checked_trace)

text \<open>
  Claim C7. Outside dry-run, let the candidates be \<open>pre @ u # post\<close>, let the loop
  get through \<open>pre\<close>, and let the test process, run on the body fetched for \<open>u\<close>, give
  the score text \<^verbatim>\<open>0/0\<close> followed by a newline (whatever its return code). Then
  \<^verbatim>\<open>spamassassin\<close> ends with \<^verbatim>\<open>sys.exit(12)\<close>; the last events are the fetch of \<open>u\<close> and its
  test process, so no candidate of \<open>post\<close> is touched, and no file is written.
\<close>

theorem degenerate_score_aborts:
  assumes nd: "\<not> dryrun self"
    and prep: "scan_prepare env self w0 = (Inr si, w1)"
    and uids: "si_uids si = pre @ u # post"
    and pre: "scan env self pre init_state w1 = (Inr st, w2)"
    and fetch: "getmessage env u w2 = (Inr body0, w3)"
    and unw: "unwrap env body0 = Inr unwrapped"
    and run: "popen env (satest self) (unwrapped_body unwrapped body0) w3 = (Exited out code, w4)"
    and score: "score_text self out = Some (''0/0'' @ [LF])"
  shows "spamassassin env self w0 = (Inl (SystemExit 12), w4)
         \<and> trace w4 = trace w2 @ [Imap (UidFetch u ''(BODY.PEEK[])''),
                                    Spawn (satest self) (unwrapped_body unwrapped body0)]
         \<and> files w4 = files w1"
proof -
  have body: "scan_body env self u st w2 = (Inl (SystemExit 12), w4)"
    using nd fetch unw run score
    by (simp add: scan_body_def classify_def after_score_def errorexit_def exitcodespamc_def)
  have "scan env self (pre @ u # post) init_state w1 = (Inl (SystemExit 12), w4)"
    using pre body by (simp add: scan_append[OF nd])
  then have 1: "spamassassin env self w0 = (Inl (SystemExit 12), w4)"
    using prep uids by (simp add: spamassassin_def thenE_def)
  have "trace w4 = trace w3 @ [Spawn (satest self) (unwrapped_body unwrapped body0)]"
    using run by (auto simp: popen_def Let_def)
  then have 2: "trace w4 = trace w2 @ [Imap (UidFetch u ''(BODY.PEEK[])''),
                                      Spawn (satest self) (unwrapped_body unwrapped body0)]"
    using getmessage_trace[OF fetch] by simp
  have "files w4 = files w3" using run by (rule popen_files)
  moreover have "files w3 = files w2" using fetch by (rule getmessage_files)
  moreover have "files w2 = files w1" using pre by (rule scan_files)
  ultimately show ?thesis using 1 2 by simp
qed











theorem degenerate_score_aborts_witness:
  "fst (spamassassin degenerate_env track_isbg empty_world) = Inl (SystemExit 12)"
proof -
  let ?si = "\<lparr>si_uidvalidity = 7, si_inboxuids = [''101'', ''104'', ''102''],
             si_origpastuids = JArr [], si_uids = [''101'', ''104'', ''102'']\<rparr>"
  let ?st = "\<lparr>newpastuids = [''101''], spamlist = [], spamdeletelist = [], processednum = 0\<rparr>"
  let ?out = "''X-Spam-Status: No, score=0 required=0''"
  let ?P = "scan_prepare degenerate_env track_isbg empty_world"
  let ?S = "scan degenerate_env track_isbg [''101''] init_state (snd ?P)"
  let ?G = "getmessage degenerate_env ''104'' (snd ?S)"
  let ?C = "popen degenerate_env (satest track_isbg) (unwrapped_body None ''mail104'') (snd ?G)"
  have nd: "\<not> dryrun track_isbg" by (simp add: track_isbg_def init_isbg_def)
  have "fst ?P = Inr ?si" by code_simp
  then have prep: "?P = (Inr ?si, snd ?P)" by (simp add: prod_eq_iff)
  have uids: "si_uids ?si = [''101''] @ ''104'' # [''102'']" by simp
  have "fst ?S = Inr ?st" by code_simp
  then have pre: "?S = (Inr ?st, snd ?S)" by (simp add: prod_eq_iff)
  have "fst ?G = Inr ''mail104''" by code_simp
  then have fetch: "?G = (Inr ''mail104'', snd ?G)" by (simp add: prod_eq_iff)
  have unw: "unwrap degenerate_env ''mail104'' = Inr None"
    by (simp add: degenerate_env_def demo_env_def)
  have "fst ?C = Exited ?out 1" by code_simp
  then have run: "?C = (Exited ?out 1, snd ?C)" by (simp add: prod_eq_iff)
  have score: "score_text track_isbg ?out = Some (''0/0'' @ [LF])" by code_simp
  from degenerate_score_aborts[OF nd prep uids pre fetch unw run score]
  have "spamassassin degenerate_env track_isbg empty_world = (Inl (SystemExit 12), snd ?C)"
    by (rule conjunct1)
  then show ?thesis by (simp only: fst_conv)
qed

section \<open>A whole run\<close>

lemma imap_select_files: "imap_select env m w = (r, w') \<Longrightarrow> files w' = files w"
  by (auto simp: imap_select_def dest!: checked_files)

lemma get_uidvalidity_files: "get_uidvalidity env m w = (r, w') \<Longrightarrow> files w' = files w"
  by (auto simp: get_uidvalidity_def thenE_def
      split: prod.splits sum.splits list.splits item.splits option.splits dest!: checked_files)

lemma imap_search_smaller_files: "imap_search_smaller env n w = (r, w') \<Longrightarrow> files w' = files w"
  by (auto simp: imap_search_smaller_def dest!: imap_call_files)

lemma pastuid_read_files:
  "files w = files w' \<Longrightarrow> pastuid_read self v folder w = pastuid_read self v folder w'"
  by (simp add: pastuid_read_def split: option.splits)

lemma scan_prepare_Inr:
  assumes "scan_prepare env self w = (Inr si, w')"
  shows "files w' = files w
       \<and> si_origpastuids si = pastuid_read self (si_uidvalidity si) ''inbox'' w
       \<and> (\<exists>f. filter_unseen (si_inboxuids si) (si_origpastuids si) = Inr f
              \<and> si_uids si = apply_partialrun self f)"
proof -
  from assms obtain r1 w1 r2 w2 v w3 res where
    a: "imap_select env (spaminbox self) w = (Inr r1, w1)"
    and b: "imap_select env (imapinbox self) w1 = (Inr r2, w2)"
    and c: "get_uidvalidity env (imapinbox self) w2 = (Inr v, w3)"
    and d: "imap_search_smaller env (maxsize self) w3 = (Inr res, w')"
    and e: "(case parse_inboxuids (snd res) of
         Inl e \<Rightarrow> (Inl e, w')
       | Inr inboxuids \<Rightarrow>
           (let origpastuids = pastuid_read self v ''inbox'' w' in
            case filter_unseen inboxuids origpastuids of
              Inl e \<Rightarrow> (Inl e, w')
            | Inr uids \<Rightarrow>
                (Inr \<lparr>si_uidvalidity = v, si_inboxuids = inboxuids,
                      si_origpastuids = origpastuids,
                      si_uids = apply_partialrun self uids\<rparr>, w'))) = (Inr si, w')"
    by (auto simp: scan_prepare_def thenE_def Let_def split: prod.splits sum.splits)
  have f: "files w' = files w"
    using imap_select_files[OF a] imap_select_files[OF b] get_uidvalidity_files[OF c]
      imap_search_smaller_files[OF d] by simp
  from e obtain inboxuids uids where
    "si = \<lparr>si_uidvalidity = v, si_inboxuids = inboxuids,
           si_origpastuids = pastuid_read self v ''inbox'' w',
           si_uids = apply_partialrun self uids\<rparr>"
    and "filter_unseen inboxuids (pastuid_read self v ''inbox'' w') = Inr uids"
    by (auto simp: Let_def split: sum.splits)
  then show ?thesis using f pastuid_read_files[OF f] by auto
qed

lemma call_store_files: "call_store env args w = (r, w') \<Longrightarrow> files w' = files w"
  by (auto simp: call_store_def imap_store_def split: list.splits pyval.splits sum.splits
      dest!: checked_files)

lemma flag_spam_files: "flag_spam env self us st w = (r, w') \<Longrightarrow> files w' = files w"
  by (induction us arbitrary: st w)
     (auto split: prod.splits sum.splits dest!: call_store_files)

lemma trash_spam_files: "trash_spam env us w = (r, w') \<Longrightarrow> files w' = files w"
  by (induction us arbitrary: w)
     (auto split: prod.splits sum.splits dest!: imap_copy_files)

lemma delete_spam_files: "delete_spam env self us w = (r, w') \<Longrightarrow> files w' = files w"
  by (induction us arbitrary: w)
     (auto split: prod.splits sum.splits if_splits dest!: imap_copy_files call_store_files)

lemma imap_expunge_files: "imap_expunge env w = (r, w') \<Longrightarrow> files w' = files w"
  by (auto simp: imap_expunge_def dest!: checked_files)

lemma mark_originals_files: "mark_originals env self st w = (r, w') \<Longrightarrow> files w' = files w"
  by (auto simp: mark_originals_def thenE_def split: if_splits prod.splits sum.splits
      dest!: imap_select_files flag_spam_files trash_spam_files delete_spam_files imap_expunge_files)

lemma pastuid_write_Inr:
  assumes "pastuid_write env self v orig new folder w = (Inr (), w')"
  shows "\<exists>p os. pastuidsfile self = Some p \<and> writable env (p @ folder) \<and> orig = JArr os
           \<and> list_all hashable (new @ os)
           \<and> files w' = (files w)(p @ folder \<mapsto>
                Json (JObj [(''uidvalidity'', JInt v), (''uids'', JArr (py_list_set (new @ os)))]))"
  using assms
  by (auto simp: pastuid_write_def split: option.splits if_splits json.splits)

lemma spamassassin_Inr:
  assumes "spamassassin env self w = (Inr r, w')"
  shows "\<exists>si w1 st w2 w3 st'.
           scan_prepare env self w = (Inr si, w1)
         \<and> scan env self (si_uids si) init_state w1 = (Inr st, w2)
         \<and> pastuid_write env self (si_uidvalidity si) (si_origpastuids si)
              (map JStr (newpastuids st)) ''inbox'' w2 = (Inr (), w3)
         \<and> mark_originals env self st w3 = (Inr st', w')
         \<and> r = (length (spamlist st) + length (spamdeletelist st), length (si_uids si),
                 length (spamdeletelist st))"
  using assms
  by (auto simp: spamassassin_def thenE_def split: prod.splits sum.splits)

lemma filter_unseen_JArr: "filter_unseen us (JArr xs) = Inr (filter (\<lambda>u. JStr u \<notin> set xs) us)"
  by (induction us) (simp_all add: py_in_def)


lemma fetched_append: "fetched (a @ b) = fetched a @ fetched b"
  by (induction a rule: fetched.induct) simp_all

lemma checked_fetched:
  "checked env c a w = (r, w') \<Longrightarrow> fetched (trace w') = fetched (trace w) @ fetched [Imap c]"
  by (auto simp: fetched_append dest!: checked_trace)

lemma imap_call_fetched:
  "imap_call env c w = (r, w') \<Longrightarrow> fetched (trace w') = fetched (trace w) @ fetched [Imap c]"
  by (auto simp: imap_call_def Let_def fetched_append split: reply.splits)

lemma popen_fetched: "popen env cmd inp w = (r, w') \<Longrightarrow> fetched (trace w') = fetched (trace w)"
  by (auto simp: popen_def Let_def fetched_append)

lemma getmessage_fetched:
  "getmessage env u w = (r, w') \<Longrightarrow> fetched (trace w') = fetched (trace w) @ [u]"
  by (auto simp: fetched_append dest!: getmessage_trace)

lemma classify_fetched:
  "classify env self body w = (r, w') \<Longrightarrow> fetched (trace w') = fetched (trace w)"
  by (auto simp: classify_def split: prod.splits proc.splits option.splits dest!: popen_fetched)

lemma imap_append_fetched:
  "imap_append env m b w = (r, w') \<Longrightarrow> fetched (trace w') = fetched (trace w)"
  by (auto simp: imap_append_def thenE_def split: prod.splits sum.splits dest!: checked_fetched)

lemma imap_copy_fetched:
  "imap_copy env u m w = (r, w') \<Longrightarrow> fetched (trace w') = fetched (trace w)"
  by (auto simp: imap_copy_def dest!: checked_fetched)

lemma report_spam_fetched:
  "report_spam env self u body st w = (r, w') \<Longrightarrow> fetched (trace w') = fetched (trace w)"
  by (auto simp: report_spam_def split: if_splits prod.splits proc.splits sum.splits exn.splits
      dest!: popen_fetched imap_append_fetched imap_copy_fetched)

lemma after_score_fetched:
  "after_score env self u body score code st w = (r, w') \<Longrightarrow> fetched (trace w') = fetched (trace w)"
  by (auto simp: after_score_def handle_spam_def split: if_splits option.splits
      dest!: report_spam_fetched)

lemma scan_body_fetched:
  "scan_body env self u st w = (Inr x, w') \<Longrightarrow> fetched (trace w') = fetched (trace w) @ [u]"
  unfolding scan_body_def Let_def
  by (auto split: if_splits prod.splits sum.splits option.splits
      dest!: getmessage_fetched classify_fetched after_score_fetched)

lemma scan_fetched:
  "\<not> dryrun self \<Longrightarrow> scan env self us st w = (Inr st', w')
   \<Longrightarrow> fetched (trace w') = fetched (trace w) @ us"
proof (induction us arbitrary: st w)
  case Nil
  then show ?case by auto
next
  case (Cons u us)
  obtain r w1 where b: "scan_body env self u st w = (r, w1)" by (cases "scan_body env self u st w")
  with Cons.prems obtain st1 where r: "r = Inr (Next, st1)" and s: "scan env self us st1 w1 = (Inr st', w')"
    using scan_body_no_break[of self env u st w]
    by (auto split: sum.splits ctl.splits prod.splits)
  from b r have "fetched (trace w1) = fetched (trace w) @ [u]" by (auto dest!: scan_body_fetched)
  with Cons.IH[OF Cons.prems(1) s] show ?case by simp
qed

lemma imap_select_fetched:
  "imap_select env m w = (r, w') \<Longrightarrow> fetched (trace w') = fetched (trace w)"
  by (auto simp: imap_select_def dest!: checked_fetched)

lemma get_uidvalidity_fetched:
  "get_uidvalidity env m w = (r, w') \<Longrightarrow> fetched (trace w') = fetched (trace w)"
  by (auto simp: get_uidvalidity_def thenE_def
      split: prod.splits sum.splits list.splits item.splits option.splits dest!: checked_fetched)

lemma imap_search_smaller_fetched:
  "imap_search_smaller env n w = (r, w') \<Longrightarrow> fetched (trace w') = fetched (trace w)"
  by (auto simp: imap_search_smaller_def dest!: imap_call_fetched)

lemma scan_prepare_fetched:
  "scan_prepare env self w = (r, w') \<Longrightarrow> fetched (trace w') = fetched (trace w)"
  by (auto simp: scan_prepare_def thenE_def Let_def split: prod.splits sum.splits
      dest!: imap_select_fetched get_uidvalidity_fetched imap_search_smaller_fetched)

lemma call_store_fetched:
  "call_store env args w = (r, w') \<Longrightarrow> fetched (trace w') = fetched (trace w)"
  by (auto simp: call_store_def imap_store_def split: list.splits pyval.splits sum.splits
      dest!: checked_fetched)

lemma flag_spam_fetched:
  "flag_spam env self us st w = (r, w') \<Longrightarrow> fetched (trace w') = fetched (trace w)"
  by (induction us arbitrary: st w)
     (auto split: prod.splits sum.splits dest!: call_store_fetched)

lemma trash_spam_fetched:
  "trash_spam env us w = (r, w') \<Longrightarrow> fetched (trace w') = fetched (trace w)"
  by (induction us arbitrary: w)
     (auto split: prod.splits sum.splits dest!: imap_copy_fetched)

lemma delete_spam_fetched:
  "delete_spam env self us w = (r, w') \<Longrightarrow> fetched (trace w') = fetched (trace w)"
  by (induction us arbitrary: w)
     (auto split: prod.splits sum.splits if_splits dest!: imap_copy_fetched call_store_fetched)

lemma imap_expunge_fetched:
  "imap_expunge env w = (r, w') \<Longrightarrow> fetched (trace w') = fetched (trace w)"
  by (auto simp: imap_expunge_def dest!: checked_fetched)

lemma mark_originals_fetched:
  "mark_originals env self st w = (r, w') \<Longrightarrow> fetched (trace w') = fetched (trace w)"
  by (auto simp: mark_originals_def thenE_def split: if_splits prod.splits sum.splits
      dest!: imap_select_fetched flag_spam_fetched trash_spam_fetched delete_spam_fetched
        imap_expunge_fetched)

lemma pastuid_write_trace:
  "pastuid_write env self v orig new folder w = (r, w') \<Longrightarrow> trace w' = trace w"
  by (auto simp: pastuid_write_def split: option.splits if_splits json.splits)


lemma set_py_list_set_subset: "set (py_list_set xs) \<subseteq> set xs"
  by (induction xs rule: py_list_set.induct) auto

lemma read_after_write:
  assumes "pastuidsfile self = Some p"
    and "files w (p @ folder) = Some (Json (JObj [(''uidvalidity'', JInt v), (''uids'', us)]))"
  shows "pastuid_read self v folder w = us"
  using assms by (simp add: pastuid_read_def py_getitem_def py_eq_int_def)

lemma run_records:
  assumes run: "spamassassin env self w0 = (Inr r, w')"
    and prep: "scan_prepare env self w0 = (Inr si, w1)"
    and nd: "\<not> dryrun self"
  shows "\<exists>p os. pastuidsfile self = Some p \<and> writable env (p @ ''inbox'')
           \<and> si_origpastuids si = JArr os
           \<and> list_all hashable (map JStr (si_uids si) @ os)
           \<and> files w' (p @ ''inbox'') = Some (Json (JObj [(''uidvalidity'', JInt (si_uidvalidity si)),
                  (''uids'', JArr (py_list_set (map JStr (si_uids si) @ os)))]))
           \<and> fetched (trace w') = fetched (trace w0) @ si_uids si
           \<and> fst (snd r) = length (si_uids si)"
proof -
  from spamassassin_Inr[OF run] prep obtain st w2 w3 st' where
    sc: "scan env self (si_uids si) init_state w1 = (Inr st, w2)"
    and wr: "pastuid_write env self (si_uidvalidity si) (si_origpastuids si)
              (map JStr (newpastuids st)) ''inbox'' w2 = (Inr (), w3)"
    and mk: "mark_originals env self st w3 = (Inr st', w')"
    and r: "r = (length (spamlist st) + length (spamdeletelist st), length (si_uids si),
                 length (spamdeletelist st))"
    by auto
  have new: "newpastuids st = si_uids si"
    using scan_newpastuids[OF nd sc] by (simp add: init_state_def)
  from pastuid_write_Inr[OF wr] new obtain p os where
    p: "pastuidsfile self = Some p" and wt: "writable env (p @ ''inbox'')"
    and os: "si_origpastuids si = JArr os"
    and h: "list_all hashable (map JStr (si_uids si) @ os)"
    and f: "files w3 = (files w2)(p @ ''inbox'' \<mapsto>
                Json (JObj [(''uidvalidity'', JInt (si_uidvalidity si)),
                  (''uids'', JArr (py_list_set (map JStr (si_uids si) @ os)))]))"
    by auto
  have "files w' = files w3" using mk by (rule mark_originals_files)
  with f have f': "files w' (p @ ''inbox'') = Some (Json (JObj [(''uidvalidity'', JInt (si_uidvalidity si)),
                  (''uids'', JArr (py_list_set (map JStr (si_uids si) @ os)))]))"
    by simp
  have "fetched (trace w') = fetched (trace w3)" using mk by (rule mark_originals_fetched)
  also have "\<dots> = fetched (trace w2)" using pastuid_write_trace[OF wr] by simp
  also have "\<dots> = fetched (trace w1) @ si_uids si" using scan_fetched[OF nd sc] .
  also have "fetched (trace w1) = fetched (trace w0)" using prep by (rule scan_prepare_fetched)
  finally have t: "fetched (trace w') = fetched (trace w0) @ si_uids si" .
  show ?thesis using p wt os h f' t r by simp
qed

lemma next_prepare:
  assumes p2: "scan_prepare env self w = (Inr si2, wb)"
    and p: "pastuidsfile self = Some p"
    and f: "files w (p @ ''inbox'') = Some (Json (JObj [(''uidvalidity'', JInt v), (''uids'', JArr L)]))"
    and same: "si_uidvalidity si2 = v"
  shows "si_origpastuids si2 = JArr L
       \<and> filter_unseen (si_inboxuids si2) (si_origpastuids si2)
           = Inr (filter (\<lambda>u. JStr u \<notin> set L) (si_inboxuids si2))
       \<and> si_uids si2 = apply_partialrun self (filter (\<lambda>u. JStr u \<notin> set L) (si_inboxuids si2))
       \<and> files wb = files w"
proof -
  from scan_prepare_Inr[OF p2] obtain f2 where
    o: "si_origpastuids si2 = pastuid_read self (si_uidvalidity si2) ''inbox'' w"
    and fu: "filter_unseen (si_inboxuids si2) (si_origpastuids si2) = Inr f2"
    and u: "si_uids si2 = apply_partialrun self f2" and fl: "files wb = files w"
    by auto
  have o': "si_origpastuids si2 = JArr L"
    using o same read_after_write[OF p f] by simp
  with fu have "f2 = filter (\<lambda>u. JStr u \<notin> set L) (si_inboxuids si2)"
    by (simp add: filter_unseen_JArr)
  then show ?thesis using o' fu u fl by simp
qed


lemma apply_partialrun_Nil: "apply_partialrun self [] = []"
  by (simp add: apply_partialrun_def py_slice_to_def split: option.splits)

lemma mark_originals_nothing:
  "spamlist st = [] \<Longrightarrow> spamdeletelist st = [] \<Longrightarrow> mark_originals env self st w = (Inr st, w)"
  by (simp add: mark_originals_def)

lemma spamassassin_counters:
  assumes "spamassassin env self w = (Inr (numspam, nummsg, spamdeleted), w')"
  shows "\<exists>si w1 st w2. scan_prepare env self w = (Inr si, w1)
           \<and> scan env self (si_uids si) init_state w1 = (Inr st, w2)
           \<and> nummsg = length (si_uids si)
           \<and> numspam = length (spamlist st) + length (spamdeletelist st)
           \<and> spamdeleted = length (spamdeletelist st)"
  using spamassassin_Inr[OF assms] by blast

lemma filter_notin_take: "distinct xs \<Longrightarrow> filter (\<lambda>u. u \<notin> set (take n xs)) xs = drop n xs"
proof -
  assume d: "distinct xs"
  let ?P = "\<lambda>u. u \<notin> set (take n xs)"
  have "distinct (take n xs @ drop n xs)" using d by simp
  then have dj: "set (take n xs) \<inter> set (drop n xs) = {}" by (simp only: distinct_append)
  have a: "filter ?P (take n xs) = []" by (simp add: filter_empty_conv)
  have b: "filter ?P (drop n xs) = drop n xs"
    using dj by (auto simp: filter_id_conv)
  have "filter ?P xs = filter ?P (take n xs @ drop n xs)" by simp
  also have "\<dots> = filter ?P (take n xs) @ filter ?P (drop n xs)" by (simp only: filter_append)
  also have "\<dots> = drop n xs" by (simp only: a b append_Nil)
  finally show ?thesis .
qed

text \<open>
  Claim C4. The claim is that every run returns the counters of its lists, and that the
  run over the candidates 101 (ham), 102 (spam, score 5 of 10) and 103 (spam, score 12
  of 10) with \<^verbatim>\<open>deletehigherthan = 10\<close> returns total 3, spam 2, deleted 1. Whenever a run
  returns, its counters are those (\<open>spamassassin_counters\<close>). But with the default
  settings the run of the scenario returns nothing: the seen-uid file is written, then
  the call of \<^verbatim>\<open>store\<close> for uid 103 raises \<^verbatim>\<open>TypeError\<close>. Only in gmail mode, where the
  uid is copied to the trash folder instead, the result is \<^verbatim>\<open>(2, 3, 1)\<close>.
\<close>

theorem scenario_raises:
  "fst (spamassassin scenario_env scenario_isbg empty_world) = Inl TypeError
   \<and> pastuid_read scenario_isbg 7 ''inbox'' (snd (spamassassin scenario_env scenario_isbg empty_world))
       = JArr [JStr ''101'', JStr ''102'', JStr ''103'']
   \<and> fst (spamassassin scenario_env (scenario_isbg\<lparr>gmail := True\<rparr>) empty_world) = Inr (2, 3, 1)"
  by code_simp

text \<open>
  Claim C8. The claim is that after a run with hits the flags are applied to every uid
  of the spam list, and \<^verbatim>\<open>\Deleted\<close> to every uid of the delete list outside gmail mode,
  each through the store operation with that uid. In the code neither loop gets past
  its first uid, whatever the server does: with a list of flags \<^verbatim>\<open>_imapflags\<close> raises
  \<^verbatim>\<open>NameError\<close>, and the call for the delete list has one argument too many and raises
  \<^verbatim>\<open>TypeError\<close>. In the scenario run with \<^verbatim>\<open>--flag\<close> no \<^verbatim>\<open>STORE\<close> command is ever sent.
\<close>

theorem store_calls_raise:
  "flag_spam env self (u # us) st w = (Inl NameError, w)
   \<and> delete_spam env (self\<lparr>gmail := False\<rparr>) (u # us) w = (Inl TypeError, w)
   \<and> fst (spamassassin scenario_env flag_isbg empty_world) = Inl NameError
   \<and> filter (\<lambda>e. case e of Imap (UidStore a b c) \<Rightarrow> True | _ \<Rightarrow> False)
        (trace (snd (spamassassin scenario_env flag_isbg empty_world))) = []"
proof -
  have 1: "flag_spam env self (u # us) st w = (Inl NameError, w)"
    by (simp add: call_store_def imap_store_def imapflags_method_def)
  have 2: "delete_spam env (self\<lparr>gmail := False\<rparr>) (u # us) w = (Inl TypeError, w)"
    by (simp add: call_store_def)
  have 3: "fst (spamassassin scenario_env flag_isbg empty_world) = Inl NameError"
    by code_simp
  have 4: "filter (\<lambda>e. case e of Imap (UidStore a b c) \<Rightarrow> True | _ \<Rightarrow> False)
        (trace (snd (spamassassin scenario_env flag_isbg empty_world))) = []"
    by code_simp
  show ?thesis using 1 2 3 4 by blast
qed

text \<open>
  Claim C10. The claim is that a fetch answered with an unexpected shape gives a
  warning, that the uid is skipped but recorded as seen, and that the run goes on. In
  the code the run ends there with an exception: for the answer \<^verbatim>\<open>('OK', [None])\<close> it is
  the \<^verbatim>\<open>TypeError\<close> of \<^verbatim>\<open>len(None)\<close> in \<^verbatim>\<open>_assertok\<close>, for \<^verbatim>\<open>('OK', [])\<close> the
  \<^verbatim>\<open>AttributeError\<close> of \<^verbatim>\<open>self.exception\<close> in the handler. The fetch of uid 105 is the last
  event, the candidate after it is never fetched, and no seen-uid file is written.
\<close>

theorem vanished_message_aborts:
  "fst (spamassassin gone_env track_isbg empty_world) = Inl TypeError
   \<and> last (trace (snd (spamassassin gone_env track_isbg empty_world)))
       = Imap (UidFetch ''105'' ''(BODY.PEEK[])'')
   \<and> files (snd (spamassassin gone_env track_isbg empty_world)) ''trackinbox'' = None
   \<and> fst (spamassassin nodata_env track_isbg empty_world) = Inl AttributeError
   \<and> last (trace (snd (spamassassin nodata_env track_isbg empty_world)))
       = Imap (UidFetch ''105'' ''(BODY.PEEK[])'')
   \<and> files (snd (spamassassin nodata_env track_isbg empty_world)) ''trackinbox'' = None"
  by code_simp

text \<open>
  Claim C1, as stated, fails when a partial-run limit is set: with \<^verbatim>\<open>partialrun = 1\<close> and
  the uids 101 and 102 in the folder, the first run returns after one message, and the
  second run, with the same uidvalidity and the same uids, has the candidate 102.
\<close>

theorem partial_run_leaves_candidates:
  "partialrun partial_isbg = Some 1
   \<and> fst (spamassassin two_env partial_isbg empty_world) = Inr (0, 1, 0)
   \<and> map_sum id si_uidvalidity (fst (scan_prepare two_env partial_isbg empty_world)) = Inr 7
   \<and> map_sum id si_inboxuids (fst (scan_prepare two_env partial_isbg empty_world))
       = Inr [''101'', ''102'']
   \<and> map_sum id si_uidvalidity
        (fst (scan_prepare two_env partial_isbg (snd (spamassassin two_env partial_isbg empty_world))))
       = Inr 7
   \<and> map_sum id si_inboxuids
        (fst (scan_prepare two_env partial_isbg (snd (spamassassin two_env partial_isbg empty_world))))
       = Inr [''101'', ''102'']
   \<and> map_sum id si_uids
        (fst (scan_prepare two_env partial_isbg (snd (spamassassin two_env partial_isbg empty_world))))
       = Inr [''102'']
   \<and> fst (spamassassin two_env partial_isbg (snd (spamassassin two_env partial_isbg empty_world)))
       = Inr (1, 1, 0)"
  by code_simp

text \<open>
  Claim C1, amended. Outside dry-run and with no partial-run limit, let a first run
  return, and let a second run start where the first ended, with the same uidvalidity
  and no uid in its search that was not in the search of the first run. Then the uids
  fetched by the first run are its candidates, each of them is in the seen-uids the
  second run reads, the second run has no candidate, and it returns the counters 0, 0, 0.
\<close>

theorem second_run_has_no_candidates:
  assumes nd: "\<not> dryrun self" and np: "partialrun self = None"
    and run1: "spamassassin env self w0 = (Inr r, w1)"
    and p1: "scan_prepare env self w0 = (Inr si1, wa)"
    and p2: "scan_prepare env self w1 = (Inr si2, wb)"
    and same: "si_uidvalidity si2 = si_uidvalidity si1"
    and nonew: "set (si_inboxuids si2) \<subseteq> set (si_inboxuids si1)"
  shows "fetched (trace w1) = fetched (trace w0) @ si_uids si1
       \<and> (\<forall>u \<in> set (si_uids si1). py_in u (si_origpastuids si2) = Inr True)
       \<and> si_uids si2 = []
       \<and> (\<exists>w2. spamassassin env self w1 = (Inr (0, 0, 0), w2))"
proof -
  from run_records[OF run1 p1 nd] obtain p os where
    p: "pastuidsfile self = Some p" and wt: "writable env (p @ ''inbox'')"
    and os: "si_origpastuids si1 = JArr os"
    and h: "list_all hashable (map JStr (si_uids si1) @ os)"
    and f: "files w1 (p @ ''inbox'') = Some (Json (JObj [(''uidvalidity'', JInt (si_uidvalidity si1)),
                  (''uids'', JArr (py_list_set (map JStr (si_uids si1) @ os)))]))"
    and t: "fetched (trace w1) = fetched (trace w0) @ si_uids si1"
    by auto
  let ?L = "py_list_set (map JStr (si_uids si1) @ os)"
  from next_prepare[OF p2 p f same] have
    o2: "si_origpastuids si2 = JArr ?L"
    and u2: "si_uids si2 = apply_partialrun self (filter (\<lambda>u. JStr u \<notin> set ?L) (si_inboxuids si2))"
    by simp_all
  from scan_prepare_Inr[OF p1] os np have
    u1: "si_uids si1 = filter (\<lambda>u. JStr u \<notin> set os) (si_inboxuids si1)"
    by (auto simp: filter_unseen_JArr apply_partialrun_def)
  have inL: "JStr u \<in> set ?L" if "u \<in> set (si_inboxuids si1)" for u
  proof (cases "JStr u \<in> set os")
    case True
    then show ?thesis by (simp add: JStr_in_py_list_set)
  next
    case False
    with that have "u \<in> set (si_uids si1)" by (simp add: u1)
    then show ?thesis by (simp add: JStr_in_py_list_set)
  qed
  have rec: "\<forall>u \<in> set (si_uids si1). py_in u (si_origpastuids si2) = Inr True"
    using o2 u1 inL by (auto simp: py_in_def)
  have "filter (\<lambda>u. JStr u \<notin> set ?L) (si_inboxuids si2) = []"
    using nonew inL by (auto simp: filter_empty_conv)
  with u2 have e: "si_uids si2 = []" by (simp add: apply_partialrun_Nil)
  have hL: "list_all hashable ?L"
    using h set_py_list_set_subset[of "map JStr (si_uids si1) @ os"]
    by (auto simp: list_all_iff)
  have fb: "files wb = files w1" using scan_prepare_Inr[OF p2] by simp
  have "\<exists>w2. pastuid_write env self (si_uidvalidity si2) (si_origpastuids si2)
              (map JStr (newpastuids init_state)) ''inbox'' wb = (Inr (), w2)"
    using p wt o2 hL by (simp add: pastuid_write_def init_state_def)
  then have "\<exists>w2. spamassassin env self w1 = (Inr (0, 0, 0), w2)"
    using p2 e by (auto simp: spamassassin_def thenE_def mark_originals_nothing init_state_def)
  then show ?thesis using t rec e by simp
qed

theorem second_run_has_no_candidates_witness:
  "fst (spamassassin two_env track_isbg (snd (spamassassin two_env track_isbg empty_world)))
     = Inr (0, 0, 0)"
proof -
  let ?R = "spamassassin two_env track_isbg empty_world"
  let ?P1 = "scan_prepare two_env track_isbg empty_world"
  let ?P2 = "scan_prepare two_env track_isbg (snd ?R)"
  let ?si1 = "\<lparr>si_uidvalidity = 7, si_inboxuids = [''101'', ''102''],
              si_origpastuids = JArr [], si_uids = [''101'', ''102'']\<rparr>"
  let ?si2 = "\<lparr>si_uidvalidity = 7, si_inboxuids = [''101'', ''102''],
              si_origpastuids = JArr [JStr ''101'', JStr ''102''], si_uids = []\<rparr>"
  have nd: "\<not> dryrun track_isbg" by (simp add: track_isbg_def init_isbg_def)
  have np: "partialrun track_isbg = None" by (simp add: track_isbg_def init_isbg_def)
  have "fst ?R = Inr (1, 2, 0)" by code_simp
  then have run1: "?R = (Inr (1, 2, 0), snd ?R)" by (simp add: prod_eq_iff)
  have "fst ?P1 = Inr ?si1" by code_simp
  then have p1: "?P1 = (Inr ?si1, snd ?P1)" by (simp add: prod_eq_iff)
  have "fst ?P2 = Inr ?si2" by code_simp
  then have p2: "?P2 = (Inr ?si2, snd ?P2)" by (simp add: prod_eq_iff)
  have same: "si_uidvalidity ?si2 = si_uidvalidity ?si1" by simp
  have nonew: "set (si_inboxuids ?si2) \<subseteq> set (si_inboxuids ?si1)" by simp
  from second_run_has_no_candidates[OF nd np run1 p1 p2 same nonew]
  obtain w2 where "spamassassin two_env track_isbg (snd ?R) = (Inr (0, 0, 0), w2)"
    by blast
  then show ?thesis by (simp only: fst_conv)
qed

text \<open>
  Claim C6, as stated, fails in a dry run: with \<^verbatim>\<open>partialrun = 8\<close> and nine unseen uids,
  the dry run returns with total 8, but the loop leaves at its seventh message, so seven
  uids are fetched and recorded, not eight.
\<close>

theorem dry_run_records_fewer:
  "partialrun dry_isbg = Some 8
   \<and> filter_unseen [''21'', ''22'', ''23'', ''24'', ''25'', ''26'', ''27'', ''28'', ''29''] (JArr [])
       = Inr [''21'', ''22'', ''23'', ''24'', ''25'', ''26'', ''27'', ''28'', ''29'']
   \<and> map_sum id si_uids (fst (scan_prepare nine_env dry_isbg empty_world))
       = Inr [''21'', ''22'', ''23'', ''24'', ''25'', ''26'', ''27'', ''28'']
   \<and> fst (spamassassin nine_env dry_isbg empty_world) = Inr (1, 8, 0)
   \<and> fetched (trace (snd (spamassassin nine_env dry_isbg empty_world)))
       = [''21'', ''22'', ''23'', ''24'', ''25'', ''26'', ''27'']
   \<and> pastuid_read dry_isbg 7 ''inbox'' (snd (spamassassin nine_env dry_isbg empty_world))
       = JArr [JStr ''21'', JStr ''22'', JStr ''23'', JStr ''24'', JStr ''25'', JStr ''26'', JStr ''27'']"
  by code_simp

text \<open>
  Claim C6, amended. Outside dry-run, let \<^verbatim>\<open>partialrun\<close> be \<open>n \<ge> 1\<close>, let the search return
  distinct uids of which more than \<open>n\<close> are unseen, and let the run return. Then exactly
  the first \<open>n\<close> unseen uids are fetched, the run counts \<open>n\<close> messages, of the unseen uids
  exactly the first \<open>n\<close> are in the seen-uid file, and a next run with the same
  uidvalidity and the same search result has the other unseen uids as its unseen ones.
\<close>

theorem partial_run_records_first_n:
  assumes nd: "\<not> dryrun self" and pr: "partialrun self = Some n" and n1: "1 \<le> n"
    and run1: "spamassassin env self w0 = (Inr r, w1)"
    and p1: "scan_prepare env self w0 = (Inr si1, wa)"
    and un: "filter_unseen (si_inboxuids si1) (si_origpastuids si1) = Inr unseen"
    and dist: "distinct (si_inboxuids si1)"
    and more: "n < int (length unseen)"
    and p2: "scan_prepare env self w1 = (Inr si2, wb)"
    and same: "si_uidvalidity si2 = si_uidvalidity si1"
    and inbox: "si_inboxuids si2 = si_inboxuids si1"
  shows "fetched (trace w1) = fetched (trace w0) @ take (nat n) unseen
       \<and> fst (snd r) = nat n
       \<and> (\<exists>L. pastuid_read self (si_uidvalidity si1) ''inbox'' w1 = JArr L
              \<and> (\<forall>u \<in> set unseen. (JStr u \<in> set L) = (u \<in> set (take (nat n) unseen))))
       \<and> filter_unseen (si_inboxuids si2) (si_origpastuids si2) = Inr (drop (nat n) unseen)
       \<and> length (drop (nat n) unseen) = length unseen - nat n"
proof -
  from run_records[OF run1 p1 nd] obtain p os where
    p: "pastuidsfile self = Some p"
    and os: "si_origpastuids si1 = JArr os"
    and f: "files w1 (p @ ''inbox'') = Some (Json (JObj [(''uidvalidity'', JInt (si_uidvalidity si1)),
                  (''uids'', JArr (py_list_set (map JStr (si_uids si1) @ os)))]))"
    and t: "fetched (trace w1) = fetched (trace w0) @ si_uids si1"
    and c: "fst (snd r) = length (si_uids si1)"
    by auto
  let ?L = "py_list_set (map JStr (si_uids si1) @ os)"
  have unseen: "unseen = filter (\<lambda>u. JStr u \<notin> set os) (si_inboxuids si1)"
    using un os by (simp add: filter_unseen_JArr)
  have du: "distinct unseen" using dist unseen by simp
  have u1: "si_uids si1 = take (nat n) unseen"
    using scan_prepare_Inr[OF p1] un pr n1 by (auto simp: apply_partialrun_def py_slice_to_def)
  have len: "length (take (nat n) unseen) = nat n" using more n1 by simp
  have rd: "pastuid_read self (si_uidvalidity si1) ''inbox'' w1 = JArr ?L"
    using read_after_write[OF p f] .
  have mem: "(JStr u \<in> set ?L) = (u \<in> set (take (nat n) unseen))" if "u \<in> set unseen" for u
    using that unseen u1 by (auto simp: JStr_in_py_list_set)
  from next_prepare[OF p2 p f same] have
    f2: "filter_unseen (si_inboxuids si2) (si_origpastuids si2)
           = Inr (filter (\<lambda>u. JStr u \<notin> set ?L) (si_inboxuids si2))"
    by blast
  have "filter (\<lambda>u. JStr u \<notin> set ?L) (si_inboxuids si1)
        = filter (\<lambda>u. u \<notin> set (take (nat n) unseen)) unseen"
    unfolding unseen[symmetric] u1
    by (subst unseen) (auto simp: JStr_in_py_list_set intro!: filter_cong)
  also have "\<dots> = drop (nat n) unseen" using du by (rule filter_notin_take)
  finally have "filter_unseen (si_inboxuids si2) (si_origpastuids si2) = Inr (drop (nat n) unseen)"
    using f2 inbox by simp
  then show ?thesis using t c u1 len rd mem by auto
qed

theorem partial_run_records_first_n_witness:
  "fetched (trace (snd (spamassassin three_env partial_isbg empty_world)))
     = fetched (trace empty_world) @ take (nat 1) [''1'', ''2'', ''3'']
   \<and> filter_unseen [''1'', ''2'', ''3''] (JArr [JStr ''1''])
       = Inr (drop (nat 1) [''1'', ''2'', ''3''])"
proof -
  let ?R = "spamassassin three_env partial_isbg empty_world"
  let ?P1 = "scan_prepare three_env partial_isbg empty_world"
  let ?P2 = "scan_prepare three_env partial_isbg (snd ?R)"
  let ?si1 = "\<lparr>si_uidvalidity = 7, si_inboxuids = [''1'', ''2'', ''3''],
              si_origpastuids = JArr [], si_uids = [''1'']\<rparr>"
  let ?si2 = "\<lparr>si_uidvalidity = 7, si_inboxuids = [''1'', ''2'', ''3''],
              si_origpastuids = JArr [JStr ''1''], si_uids = [''2'']\<rparr>"
  have nd: "\<not> dryrun partial_isbg" by (simp add: partial_isbg_def track_isbg_def init_isbg_def)
  have pr: "partialrun partial_isbg = Some 1" by (simp add: partial_isbg_def)
  have n1: "(1::int) \<le> 1" by simp
  have "fst ?R = Inr (0, 1, 0)" by code_simp
  then have run1: "?R = (Inr (0, 1, 0), snd ?R)" by (simp add: prod_eq_iff)
  have "fst ?P1 = Inr ?si1" by code_simp
  then have p1: "?P1 = (Inr ?si1, snd ?P1)" by (simp add: prod_eq_iff)
  have un: "filter_unseen (si_inboxuids ?si1) (si_origpastuids ?si1) = Inr [''1'', ''2'', ''3'']"
    by (simp add: filter_unseen_empty)
  have dist: "distinct (si_inboxuids ?si1)" by simp
  have more: "1 < int (length [''1'', ''2'', ''3''])" by simp
  have "fst ?P2 = Inr ?si2" by code_simp
  then have p2: "?P2 = (Inr ?si2, snd ?P2)" by (simp add: prod_eq_iff)
  have same: "si_uidvalidity ?si2 = si_uidvalidity ?si1" by simp
  have inbox: "si_inboxuids ?si2 = si_inboxuids ?si1" by simp
  note T = partial_run_records_first_n[OF nd pr n1 run1 p1 un dist more p2 same inbox]
  have a: "fetched (trace (snd ?R)) = fetched (trace empty_world) @ take (nat 1) [''1'', ''2'', ''3'']"
    using T by (rule conjunct1)
  have "filter_unseen (si_inboxuids ?si2) (si_origpastuids ?si2)
          = Inr (drop (nat 1) [''1'', ''2'', ''3''])"
    using T by blast
  then have b: "filter_unseen [''1'', ''2'', ''3''] (JArr [JStr ''1''])
       = Inr (drop (nat 1) [''1'', ''2'', ''3''])"
    by (simp only: scan_input.simps)
  show ?thesis using a b by (rule conjI)
qed

end
